theory Spec2Isabelle
  imports Main
begin

section \<open>JavaScript values, exceptions and observable effects\<close>

text \<open>
  The component (\<^verbatim>\<open>index.js\<close>) keeps five module-level variables, reads fixture files
  with \<^verbatim>\<open>require\<close>, inserts them with the host framework's \<^verbatim>\<open>create\<close> and erases
  them with \<^verbatim>\<open>automigrate\<close>. The embedding threads the module-level variables as an
  explicit state, records every call to the outside as an event, and returns every
  exception as a value.
\<close>

text \<open>
  The content of a fixture file, and what \<^verbatim>\<open>cachedFixtures[name]\<close> can give.
  \<open>JUndefined\<close> is the value of a missing property. \<open>JBuiltin n\<close> is the member \<open>n\<close>
  that every plain object inherits from \<^verbatim>\<open>Object.prototype\<close>, a function or an object.
  Numbers are only tested for truthiness, so integers stand for them.
\<close>

datatype jsval =
    JUndefined
  | JNull
  | JBool bool
  | JNum int
  | JStr string
  | JArr "jsval list"
  | JObj "(string \<times> jsval) list"
  | JBuiltin string

text \<open>JavaScript truthiness, as used by \<^verbatim>\<open>if (!cachedFixtures[fixtureName])\<close>.\<close>

fun truthy :: "jsval \<Rightarrow> bool" where
  "truthy JUndefined = False"
| "truthy JNull = False"
| "truthy (JBool b) = b"
| "truthy (JNum n) = (n \<noteq> 0)"
| "truthy (JStr s) = (s \<noteq> [])"
| "truthy (JArr xs) = True"
| "truthy (JObj kvs) = True"
| "truthy (JBuiltin n) = True"

text \<open>
  A fixture file holds either a single record object or an array of record objects.
\<close>

fun is_records :: "jsval \<Rightarrow> bool" where
  "is_records (JArr xs) = True"
| "is_records (JObj kvs) = True"
| "is_records v = False"

text \<open>
  The error value a host operation hands to its callback. \<open>None\<close> stands for every
  falsy value (\<^verbatim>\<open>null\<close>, \<^verbatim>\<open>undefined\<close>): the code and the \<^verbatim>\<open>async\<close> library only
  test \<^verbatim>\<open>if (err)\<close>.
\<close>

type_synonym err = string

datatype exn =
    TypeError string
  | ModuleError string
  | FsError string
  | Error string

text \<open>
  How a call ends. \<open>Finished r\<close>: the completion callback was invoked with \<open>r\<close> and no
  exception escaped. \<open>Raised x c\<close>: the exception \<open>x\<close> escaped from the call; \<open>c\<close> is
  what the completion callback received if it was invoked at all.
\<close>

datatype 'r outcome =
    Finished 'r
  | Raised exn "'r option"

fun on_callback :: "('a \<Rightarrow> 'b) \<Rightarrow> 'a outcome \<Rightarrow> 'b outcome" where
  "on_callback f (Finished r) = Finished (f r)"
| "on_callback f (Raised x c) = Raised x (map_option f c)"

text \<open>
  Calls to the outside world, in the order the code issues them:
  \<open>Readdir p\<close> is \<^verbatim>\<open>fs.readdirSync(p)\<close>, \<open>Require p n\<close> is \<^verbatim>\<open>require(p + n)\<close> for the
  fixture name \<open>n\<close>, \<open>Create n d\<close> is \<^verbatim>\<open>models[n].create(d, ...)\<close>, and
  \<open>Automigrate ds m\<close> is \<^verbatim>\<open>dataSource.automigrate(m, ...)\<close> on the data source \<open>ds\<close>
  (\<open>m = None\<close>: called without a model name, the whole data source).
\<close>

datatype event =
    Readdir string
  | Require string string
  | Create string jsval
  | Automigrate string "string option"

section \<open>Configuration\<close>

datatype environments =
    EnvScalar string
  | EnvList "string list"

record config =
  loadFixturesOnStartup :: bool
  errorOnSetupFailure :: bool
  environments :: environments
  fixturesPath :: string

text \<open>The options object handed to the component: every recognised option may be absent.\<close>

record options =
  opt_loadFixturesOnStartup :: "bool option"
  opt_errorOnSetupFailure :: "bool option"
  opt_environments :: "environments option"
  opt_fixturesPath :: "string option"

text \<open>The literal \<^verbatim>\<open>defaults\<close> object of the source (lines 19-24).\<close>

definition documented_defaults :: config where
  "documented_defaults =
     \<lparr>loadFixturesOnStartup = False,
      errorOnSetupFailure = False,
      environments = EnvScalar ''test'',
      fixturesPath = ''/server/test-fixtures/''\<rparr>"

text \<open>
  \<^verbatim>\<open>merge(defaults, options)\<close> of the npm package \<^verbatim>\<open>merge\<close>: every own property of
  \<^verbatim>\<open>options\<close> is assigned onto the first argument, which is also the value returned.
\<close>

definition merge :: "config \<Rightarrow> options \<Rightarrow> config" where
  "merge d opts =
     \<lparr>loadFixturesOnStartup =
        (case opt_loadFixturesOnStartup opts of None \<Rightarrow> loadFixturesOnStartup d | Some v \<Rightarrow> v),
      errorOnSetupFailure =
        (case opt_errorOnSetupFailure opts of None \<Rightarrow> errorOnSetupFailure d | Some v \<Rightarrow> v),
      environments =
        (case opt_environments opts of None \<Rightarrow> environments d | Some v \<Rightarrow> v),
      fixturesPath =
        (case opt_fixturesPath opts of None \<Rightarrow> fixturesPath d | Some v \<Rightarrow> v)\<rparr>"

section \<open>The host application, the outside world and the module state\<close>

text \<open>
  A model is its bulk-create operation: the error it reports for the data it is given.
  A data source is its auto-migrate operation: the error it reports for the model name
  it is given (\<open>None\<close>: no model name). Both report through their callback.
\<close>

type_synonym model = "jsval \<Rightarrow> err option"

type_synonym datasource = "string option \<Rightarrow> err option"

record app =
  app_models :: "string \<rightharpoonup> model"
  settings_env :: "string option"
  datasources :: "(string \<times> datasource) list"

text \<open>
  What the process sees outside the component at the time of one call: the directory
  listing (\<open>None\<close>: \<^verbatim>\<open>readdirSync\<close> throws), what \<^verbatim>\<open>require\<close> returns for a path
  (\<open>None\<close>: it throws), \<^verbatim>\<open>path.join(appRoot, _)\<close>, and \<^verbatim>\<open>process.env.NODE_ENV\<close>.
  \<open>completion n\<close> says when the bulk-create of the model \<open>n\<close> calls back: \<open>0\<close> is
  synchronously, before \<^verbatim>\<open>create\<close> returns; a positive number is after the running
  call has returned, the smaller number first.
\<close>

record world =
  readdirSync :: "string \<Rightarrow> string list option"
  require :: "string \<Rightarrow> jsval option"
  join_appRoot :: "string \<Rightarrow> string"
  NODE_ENV :: "string option"
  completion :: "string \<Rightarrow> nat"

text \<open>
  The module-level variables (lines 13-24). \<open>None\<close> is \<^verbatim>\<open>undefined\<close>. \<^verbatim>\<open>models\<close> and
  \<^verbatim>\<open>config\<close> are assigned by \<^verbatim>\<open>init\<close> before any operation that reads them exists.
  \<open>config\<close> and \<open>defaults\<close> are one object after \<^verbatim>\<open>init\<close>: it assigns both.
\<close>

record module_state =
  models :: "string \<rightharpoonup> model"
  fixtureNames :: "string list option"
  fixturePath :: string
  cachedFixtures :: "(string \<rightharpoonup> jsval) option"
  config :: config
  defaults :: config

definition module_initial :: module_state where
  "module_initial =
     \<lparr>models = Map.empty,
      fixtureNames = None,
      fixturePath = [],
      cachedFixtures = None,
      config = documented_defaults,
      defaults = documented_defaults\<rparr>"

text \<open>The result of running one function of the module.\<close>

record 'r run =
  post :: module_state
  events :: "event list"
  outcome :: "'r outcome"

text \<open>
  The result of a join over callbacks: \<open>late\<close> is the exception the final callback
  throws when it is invoked after the call has returned, where nothing catches it.
\<close>

record join = "(err option) run" +
  late :: "exn option"

section \<open>String helpers of the JavaScript runtime\<close>

text \<open>\<^verbatim>\<open>fileName.match(/\.json$/)\<close>: the name ends with the suffix.\<close>

definition ends_with :: "string \<Rightarrow> string \<Rightarrow> bool" where
  "ends_with suf s =
     (length suf \<le> length s \<and> drop (length s - length suf) s = suf)"

text \<open>
  \<^verbatim>\<open>s.replace(pat, rep)\<close> with a string pattern: only the first occurrence of \<open>pat\<close>,
  searched from the left, is replaced.
\<close>

fun replace_first :: "string \<Rightarrow> string \<Rightarrow> string \<Rightarrow> string" where
  "replace_first pat rep [] = (if pat = [] then rep else [])"
| "replace_first pat rep (c # cs) =
     (if take (length pat) (c # cs) = pat then rep @ drop (length pat) (c # cs)
      else c # replace_first pat rep cs)"

text \<open>\<^verbatim>\<open>s.split(',')\<close>.\<close>

fun split_comma :: "string \<Rightarrow> string list" where
  "split_comma [] = [[]]"
| "split_comma (c # cs) =
     (if c = CHR '','' then [] # split_comma cs
      else (case split_comma cs of
              [] \<Rightarrow> [[c]]
            | p # ps \<Rightarrow> (c # p) # ps))"

text \<open>
  \<^verbatim>\<open>s.toLowerCase()\<close> on ASCII text: the letters \<^verbatim>\<open>A\<close> to \<^verbatim>\<open>Z\<close> are lowered and
  every other character is kept. The code lowers letters outside ASCII as well; names
  with such letters are outside this model.
\<close>

definition lower_char :: "char \<Rightarrow> char" where
  "lower_char c =
     (case map_of (zip ''ABCDEFGHIJKLMNOPQRSTUVWXYZ'' ''abcdefghijklmnopqrstuvwxyz'') c of
        None \<Rightarrow> c
      | Some l \<Rightarrow> l)"

definition toLowerCase :: "string \<Rightarrow> string" where
  "toLowerCase s = map lower_char s"

text \<open>\<^verbatim>\<open>xs.indexOf(x)\<close>: the first index holding \<open>x\<close>, or \<open>-1\<close>.\<close>

fun indexOf_from :: "int \<Rightarrow> 'a list \<Rightarrow> 'a \<Rightarrow> int" where
  "indexOf_from i [] x = - 1"
| "indexOf_from i (y # ys) x = (if y = x then i else indexOf_from (i + 1) ys x)"

definition indexOf :: "'a list \<Rightarrow> 'a \<Rightarrow> int" where
  "indexOf xs x = indexOf_from 0 xs x"

section \<open>The \<^verbatim>\<open>async.each\<close> join\<close>

text \<open>
  \<^verbatim>\<open>async.each(coll, iteratee, callback)\<close> starts the iteratee on every item, in the
  order of the list, and invokes the final callback once: with the first error that is
  reported, or with \<^verbatim>\<open>null\<close> when every item has reported without one.

  \<open>rank x\<close> says when the item \<open>x\<close> reports: \<open>0\<close> is synchronously, inside the loop;
  a positive rank is after the loop has returned, the smaller rank first and items of
  equal rank in the order of the list. \<open>k e\<close> is the exception the final callback throws
  when it is handed the error \<open>e\<close> (\<open>None\<close>: it returns); no final callback of this
  module throws when it is handed \<^verbatim>\<open>null\<close>.

  The loop ends early in two ways. An iteratee that throws ends it: the later items are
  not started and the exception escapes. And when an item reports an error
  synchronously, the final callback runs inside the loop; if it throws there, the
  exception unwinds the loop in the same way. \<open>fired\<close> says that the final callback has
  already run inside the loop, so it does not run again.

  No iteratee of this module reports to its callback and throws afterwards, so what a
  throwing iteratee reported is not looked at.
\<close>

record started =
  st_post :: module_state
  st_events :: "event list"
  st_errors :: "(nat \<times> err) list"
  st_escaped :: "exn option"

fun start_each ::
  "('a \<Rightarrow> nat) \<Rightarrow> (err \<Rightarrow> exn option) \<Rightarrow> ('a \<Rightarrow> module_state \<Rightarrow> (err option) run)
     \<Rightarrow> 'a list \<Rightarrow> bool \<Rightarrow> module_state \<Rightarrow> started" where
  "start_each rank k f [] fired s =
     \<lparr>st_post = s, st_events = [], st_errors = [], st_escaped = None\<rparr>"
| "start_each rank k f (x # xs) fired s =
     (let r = f x s in
      case outcome r of
        Raised y c \<Rightarrow>
          \<lparr>st_post = post r, st_events = events r, st_errors = [], st_escaped = Some y\<rparr>
      | Finished None \<Rightarrow>
          (let rest = start_each rank k f xs fired (post r)
           in \<lparr>st_post = st_post rest, st_events = events r @ st_events rest,
               st_errors = st_errors rest, st_escaped = st_escaped rest\<rparr>)
      | Finished (Some e) \<Rightarrow>
          (if rank x = 0 \<and> \<not> fired \<and> k e \<noteq> None then
             \<lparr>st_post = post r, st_events = events r, st_errors = [(0, e)],
              st_escaped = k e\<rparr>
           else
             (let rest = start_each rank k f xs (fired \<or> rank x = 0) (post r)
              in \<lparr>st_post = st_post rest, st_events = events r @ st_events rest,
                  st_errors = (rank x, e) # st_errors rest, st_escaped = st_escaped rest\<rparr>)))"

text \<open>
  The error that is reported first: the one of least rank, and among errors of equal
  rank the one of the item that comes first in the list.
\<close>

fun earliest :: "(nat \<times> err) list \<Rightarrow> (nat \<times> err) option" where
  "earliest [] = None"
| "earliest (p # ps) =
     (case earliest ps of
        None \<Rightarrow> Some p
      | Some q \<Rightarrow> if fst q < fst p then Some q else Some p)"

definition async_each ::
  "('a \<Rightarrow> nat) \<Rightarrow> (err \<Rightarrow> exn option) \<Rightarrow> ('a \<Rightarrow> module_state \<Rightarrow> (err option) run)
     \<Rightarrow> 'a list \<Rightarrow> module_state \<Rightarrow> join" where
  "async_each rank k f xs s =
     (let st = start_each rank k f xs False s;
          first = earliest (st_errors st)
      in \<lparr>post = st_post st,
          events = st_events st,
          outcome =
            (case st_escaped st of
               None \<Rightarrow> Finished (map_option snd first)
             | Some y \<Rightarrow> Raised y (map_option (\<lambda>p. Some (snd p)) first)),
          late =
            (case first of
               None \<Rightarrow> None
             | Some p \<Rightarrow> if 0 < fst p then k (snd p) else None)\<rparr>)"

section \<open>Fixture store and fixture loader (lines 26-71)\<close>

definition createFixtureList :: "world \<Rightarrow> module_state \<Rightarrow> exn + string list" where
  "createFixtureList w s =
     (case readdirSync w (fixturePath s) of
        None \<Rightarrow> Inl (FsError (fixturePath s))
      | Some fixtureFolderContents \<Rightarrow>
          Inr (map (\<lambda>fileName. replace_first ''.json'' [] fileName)
                 (filter (\<lambda>fileName. ends_with ''.json'' fileName) fixtureFolderContents)))"

text \<open>
  The cache is the plain object \<^verbatim>\<open>{}\<close>, so it inherits the members of
  \<^verbatim>\<open>Object.prototype\<close>: under these names a lookup gives a truthy value even on an
  empty cache.
\<close>

definition object_prototype_members :: "string list" where
  "object_prototype_members =
     [''constructor'', ''__defineGetter__'', ''__defineSetter__'', ''hasOwnProperty'',
      ''__lookupGetter__'', ''__lookupSetter__'', ''isPrototypeOf'', ''propertyIsEnumerable'',
      ''toString'', ''valueOf'', ''__proto__'', ''toLocaleString'']"

text \<open>
  \<^verbatim>\<open>cachedFixtures[fixtureName]\<close> on the cache object \<open>c\<close>, which maps the names the
  code has stored: a stored value first, then an inherited member.
\<close>

definition cache_lookup :: "(string \<rightharpoonup> jsval) \<Rightarrow> string \<Rightarrow> jsval" where
  "cache_lookup c n =
     (case c n of
        Some v \<Rightarrow> v
      | None \<Rightarrow> if n \<in> set object_prototype_members then JBuiltin n else JUndefined)"

definition addToCache :: "world \<Rightarrow> string \<Rightarrow> module_state \<Rightarrow> unit run" where
  "addToCache w fixtureName s =
     (case require w (fixturePath s @ fixtureName) of
        None \<Rightarrow>
          \<lparr>post = s, events = [Require (fixturePath s) fixtureName],
           outcome = Raised (ModuleError (fixturePath s @ fixtureName)) None\<rparr>
      | Some fixtureData \<Rightarrow>
          (case cachedFixtures s of
             None \<Rightarrow>
               \<lparr>post = s, events = [Require (fixturePath s) fixtureName],
                outcome = Raised (TypeError ''cachedFixtures'') None\<rparr>
           | Some c \<Rightarrow>
               \<lparr>post = s\<lparr>cachedFixtures := Some (c(fixtureName \<mapsto> fixtureData))\<rparr>,
                events = [Require (fixturePath s) fixtureName],
                outcome = Finished ()\<rparr>))"

definition loadFixture :: "world \<Rightarrow> string \<Rightarrow> module_state \<Rightarrow> (err option) run" where
  "loadFixture w fixtureName s =
     (case cachedFixtures s of
        None \<Rightarrow> \<lparr>post = s, events = [], outcome = Raised (TypeError ''cachedFixtures'') None\<rparr>
      | Some c \<Rightarrow>
          (let r = (if \<not> truthy (cache_lookup c fixtureName) then addToCache w fixtureName s
                    else \<lparr>post = s, events = [], outcome = Finished ()\<rparr>)
           in case outcome r of
                Raised x u \<Rightarrow> \<lparr>post = post r, events = events r, outcome = Raised x None\<rparr>
              | Finished u \<Rightarrow>
                  (case models (post r) fixtureName of
                     None \<Rightarrow>
                       \<lparr>post = post r, events = events r,
                        outcome = Raised (TypeError ''create'') None\<rparr>
                   | Some m \<Rightarrow>
                       (case cachedFixtures (post r) of
                          None \<Rightarrow>
                            \<lparr>post = post r, events = events r,
                             outcome = Raised (TypeError ''cachedFixtures'') None\<rparr>
                        | Some c' \<Rightarrow>
                            \<lparr>post = post r,
                             events = events r @ [Create fixtureName (cache_lookup c' fixtureName)],
                             outcome = Finished (m (cache_lookup c' fixtureName))\<rparr>))))"

text \<open>
  The head of \<^verbatim>\<open>loadFixtures\<close> (lines 59-63): only when \<^verbatim>\<open>cachedFixtures\<close> is still
  undefined, it is set to an empty object and the directory is listed into
  \<^verbatim>\<open>fixtureNames\<close>. The assignment to \<^verbatim>\<open>cachedFixtures\<close> comes first and stays when
  the listing throws.
\<close>

definition ensureCache :: "world \<Rightarrow> module_state \<Rightarrow> unit run" where
  "ensureCache w s =
     (if cachedFixtures s = None then
        (case createFixtureList w (s\<lparr>cachedFixtures := Some Map.empty\<rparr>) of
           Inl x \<Rightarrow>
             \<lparr>post = s\<lparr>cachedFixtures := Some Map.empty\<rparr>,
              events = [Readdir (fixturePath s)],
              outcome = Raised x None\<rparr>
         | Inr names \<Rightarrow>
             \<lparr>post = s\<lparr>cachedFixtures := Some Map.empty, fixtureNames := Some names\<rparr>,
              events = [Readdir (fixturePath s)],
              outcome = Finished ()\<rparr>)
      else \<lparr>post = s, events = [], outcome = Finished ()\<rparr>)"

text \<open>
  \<^verbatim>\<open>loadFixtures(fixtures, cb)\<close>; \<open>fixtures = None\<close> is the call with the callback
  alone, which loads \<^verbatim>\<open>fixtureNames\<close>. \<open>k\<close> is the exception the callback throws when
  it is handed an error. \<^verbatim>\<open>async.each\<close> on an undefined collection calls back at once
  with no error.
\<close>

definition loadFixtures ::
  "world \<Rightarrow> string list option \<Rightarrow> (err \<Rightarrow> exn option) \<Rightarrow> module_state \<Rightarrow> join" where
  "loadFixtures w fixtures k s =
     (let r0 = ensureCache w s
      in case outcome r0 of
           Raised x u \<Rightarrow>
             \<lparr>post = post r0, events = events r0, outcome = Raised x None, late = None\<rparr>
         | Finished u \<Rightarrow>
             (let coll = (case fixtures of None \<Rightarrow> fixtureNames (post r0) | Some fs \<Rightarrow> Some fs);
                  r = (case coll of
                         None \<Rightarrow>
                           \<lparr>post = post r0, events = [], outcome = Finished None, late = None\<rparr>
                       | Some ns \<Rightarrow> async_each (completion w) k (loadFixture w) ns (post r0))
              in \<lparr>post = post r, events = events r0 @ events r, outcome = outcome r,
                  late = late r\<rparr>))"

section \<open>The selection argument\<close>

text \<open>
  What a caller passes as \<^verbatim>\<open>select\<close>: nothing (or the callback itself), a string, or
  a list of names. \<open>typeof\<close> is the JavaScript operator on these values.
\<close>

datatype select =
    SelAbsent
  | SelString string
  | SelArray "string list"

fun typeof :: "select \<Rightarrow> string" where
  "typeof SelAbsent = ''undefined''"
| "typeof (SelString str) = ''string''"
| "typeof (SelArray xs) = ''object''"

text \<open>\<^verbatim>\<open>if (!Array.isArray(select)) select = select.split(',')\<close>.\<close>

fun select_names :: "select \<Rightarrow> string list" where
  "select_names (SelString str) = split_comma str"
| "select_names (SelArray xs) = xs"
| "select_names SelAbsent = []"

section \<open>The public operations (lines 102-187)\<close>

text \<open>
  What the caller's callback receives: \<^verbatim>\<open>cb(errors)\<close> or \<^verbatim>\<open>cb(null, message)\<close>.
  The caller's callback is taken not to throw.
\<close>

type_synonym cb_args = "err option \<times> string option"

definition setupCallback :: "module_state \<Rightarrow> err option \<Rightarrow> cb_args" where
  "setupCallback s errors =
     (if errors \<noteq> None \<and> errorOnSetupFailure (config s) then (errors, None)
      else (None, Some ''setup complete''))"

definition setupFixtures :: "world \<Rightarrow> select \<Rightarrow> module_state \<Rightarrow> cb_args run" where
  "setupFixtures w sel s =
     (let r = (if typeof sel \<noteq> ''string'' then loadFixtures w None (\<lambda>e. None) s
               else loadFixtures w (Some (select_names sel)) (\<lambda>e. None) s)
      in \<lparr>post = post r, events = events r,
          outcome = on_callback (setupCallback (post r)) (outcome r)\<rparr>)"

definition remigrateModel ::
  "string \<Rightarrow> datasource \<Rightarrow> string \<Rightarrow> module_state \<Rightarrow> (err option) run" where
  "remigrateModel dataSourceName dataSource m s =
     \<lparr>post = s, events = [Automigrate dataSourceName (Some m)],
      outcome = Finished (dataSource (Some m))\<rparr>"

text \<open>
  \<^verbatim>\<open>migrateDataSource\<close> receives the data source's name and looks the data source up
  in \<^verbatim>\<open>app.datasources\<close>; here it receives the pair. The guard is on the module-level
  \<^verbatim>\<open>fixtureNames\<close>; the names migrated are \<^verbatim>\<open>fixturesToTeardown\<close>. In the other branch
  the data source is migrated as a whole and its result is dropped. The final callback
  of the teardown drops every error and does not throw, so when the migrations report
  makes no difference: they are given the rank \<open>0\<close>.
\<close>

definition migrateDataSource ::
  "string list option \<Rightarrow> string \<times> datasource \<Rightarrow> module_state \<Rightarrow> (err option) run" where
  "migrateDataSource fixturesToTeardown ds s =
     (case ds of (dataSourceName, dataSource) \<Rightarrow>
        if fixtureNames s \<noteq> None then
          (case fixturesToTeardown of
             None \<Rightarrow> \<lparr>post = s, events = [], outcome = Raised (TypeError ''map'') None\<rparr>
           | Some names \<Rightarrow>
               (let modelNamesLower = map toLowerCase names;
                    modelNamesBothCases = names @ modelNamesLower;
                    r = async_each (\<lambda>m. 0) (\<lambda>e. None)
                          (remigrateModel dataSourceName dataSource) modelNamesBothCases s
                in \<lparr>post = post r, events = events r, outcome = outcome r\<rparr>))
        else
          \<lparr>post = s, events = [Automigrate dataSourceName None], outcome = Finished None\<rparr>)"

definition teardownFixtures :: "app \<Rightarrow> select \<Rightarrow> module_state \<Rightarrow> cb_args run" where
  "teardownFixtures a sel s =
     (let fixturesToTeardown =
            (if typeof sel \<noteq> ''string'' then fixtureNames s else Some (select_names sel));
          r = async_each (\<lambda>d. 0) (\<lambda>e. None)
                (migrateDataSource fixturesToTeardown) (datasources a) s
      in \<lparr>post = post r, events = events r,
          outcome = on_callback (\<lambda>errors. (None, Some ''teardown complete'')) (outcome r)\<rparr>)"

section \<open>Initialisation (lines 73-100)\<close>

text \<open>
  \<^verbatim>\<open>app.settings && app.settings.env ? app.settings.env : process.env.NODE_ENV\<close>:
  an empty string is falsy.
\<close>

definition active_environment :: "world \<Rightarrow> app \<Rightarrow> string option" where
  "active_environment w a =
     (case settings_env a of
        None \<Rightarrow> NODE_ENV w
      | Some e \<Rightarrow> if e \<noteq> [] then Some e else NODE_ENV w)"

definition environment_match :: "environments \<Rightarrow> string option \<Rightarrow> bool" where
  "environment_match envs environment =
     (case envs of
        EnvList xs \<Rightarrow> indexOf (map Some xs) environment \<noteq> - 1
      | EnvScalar e \<Rightarrow> environment = Some e)"

text \<open>
  The callback \<^verbatim>\<open>init\<close> hands to \<^verbatim>\<open>loadFixtures\<close> (lines 93-98), when it is handed
  an error: it throws when \<^verbatim>\<open>errorOnSetupFailure\<close> is set.
\<close>

definition startupCallback :: "config \<Rightarrow> err \<Rightarrow> exn option" where
  "startupCallback c e =
     (if errorOnSetupFailure c
      then Some (Error ''Failed to load fixtures on startup:'') else None)"

text \<open>
  The result of \<^verbatim>\<open>init\<close>. \<open>outcome\<close> is \<open>Finished ()\<close> when \<^verbatim>\<open>init\<close> returns and
  \<open>Raised x None\<close> when the exception \<open>x\<close> escapes from it. \<open>uncaught\<close> is the exception
  the startup callback throws after \<^verbatim>\<open>init\<close> has returned.
\<close>

record init_run = "unit run" +
  uncaught :: "exn option"

text \<open>
  The assignments at the head of \<^verbatim>\<open>init\<close> (lines 74-76). \<^verbatim>\<open>merge\<close> writes into the
  \<^verbatim>\<open>defaults\<close> object and returns it, so \<open>defaults\<close> and \<open>config\<close> both hold the merged
  values afterwards.
\<close>

definition configure :: "world \<Rightarrow> app \<Rightarrow> options \<Rightarrow> module_state \<Rightarrow> module_state" where
  "configure w a opts s =
     (let merged = merge (defaults s) opts
      in s\<lparr>models := app_models a,
           defaults := merged,
           config := merged,
           fixturePath := join_appRoot w (fixturesPath merged)\<rparr>)"

definition init :: "world \<Rightarrow> app \<Rightarrow> options \<Rightarrow> module_state \<Rightarrow> init_run" where
  "init w a opts s =
     (let s1 = configure w a opts s;
          environment = active_environment w a;
          match = environment_match (environments (config s1)) environment
      in if \<not> match then
           \<lparr>post = s1, events = [], outcome = Finished (), uncaught = None\<rparr>
         else if loadFixturesOnStartup (config s1) then
           (let r = loadFixtures w None (startupCallback (config s1)) s1
            in \<lparr>post = post r, events = events r,
                outcome = (case outcome r of
                             Finished e \<Rightarrow> Finished ()
                           | Raised x c \<Rightarrow> Raised x None),
                uncaught = late r\<rparr>)
         else \<lparr>post = s1, events = [], outcome = Finished (), uncaught = None\<rparr>)"

section \<open>Sequences of operations in one process\<close>

datatype op =
    OpInit app options
  | OpSetup select
  | OpTeardown app select

fun exec_op :: "world \<Rightarrow> op \<Rightarrow> module_state \<Rightarrow> module_state \<times> event list" where
  "exec_op w (OpInit a opts) s = (let r = init w a opts s in (post r, events r))"
| "exec_op w (OpSetup sel) s = (let r = setupFixtures w sel s in (post r, events r))"
| "exec_op w (OpTeardown a sel) s = (let r = teardownFixtures a sel s in (post r, events r))"

fun exec_ops :: "(world \<times> op) list \<Rightarrow> module_state \<Rightarrow> module_state \<times> event list" where
  "exec_ops [] s = (s, [])"
| "exec_ops (wp # rest) s =
     (let r1 = exec_op (fst wp) (snd wp) s;
          r2 = exec_ops rest (fst r1)
      in (fst r2, snd r1 @ snd r2))"

section \<open>Reading the event log\<close>

fun is_require_of :: "string \<Rightarrow> event \<Rightarrow> bool" where
  "is_require_of n (Require p m) = (m = n)"
| "is_require_of n e = False"


fun is_create :: "event \<Rightarrow> bool" where
  "is_create (Create n d) = True"
| "is_create e = False"

text \<open>The bulk-create calls of a log, in order.\<close>

definition creates :: "event list \<Rightarrow> event list" where
  "creates evs = filter is_create evs"

section \<open>Vocabulary for the properties\<close>

text \<open>What the cache holds for a name, and whether \<^verbatim>\<open>loadFixture\<close> takes it as cached.\<close>

definition cached_value :: "module_state \<Rightarrow> string \<Rightarrow> jsval" where
  "cached_value s n =
     (case cachedFixtures s of None \<Rightarrow> JUndefined | Some c \<Rightarrow> cache_lookup c n)"

definition is_cached :: "module_state \<Rightarrow> string \<Rightarrow> bool" where
  "is_cached s n = truthy (cached_value s n)"

text \<open>What \<^verbatim>\<open>require\<close> gives for a fixture name in the current fixtures directory.\<close>

definition required :: "world \<Rightarrow> module_state \<Rightarrow> string \<Rightarrow> jsval" where
  "required w s n =
     (case require w (fixturePath s @ n) of None \<Rightarrow> JUndefined | Some d \<Rightarrow> d)"

text \<open>The records a load of \<open>n\<close> hands to \<^verbatim>\<open>create\<close>: the cached ones, else the file's.\<close>

definition fixture_data :: "world \<Rightarrow> module_state \<Rightarrow> string \<Rightarrow> jsval" where
  "fixture_data w s n = (if is_cached s n then cached_value s n else required w s n)"

text \<open>
  A load of \<open>n\<close> raises no exception: a model is registered under \<open>n\<close>, and the records
  are cached or the file can be read.
\<close>

definition loadable :: "world \<Rightarrow> module_state \<Rightarrow> string \<Rightarrow> bool" where
  "loadable w s n =
     (models s n \<noteq> None \<and> (is_cached s n \<or> require w (fixturePath s @ n) \<noteq> None))"

text \<open>The error the bulk-create of \<open>n\<close> reports for these records (\<open>None\<close>: success).\<close>

definition reported :: "world \<Rightarrow> module_state \<Rightarrow> string \<Rightarrow> err option" where
  "reported w s n = (case models s n of None \<Rightarrow> None | Some m \<Rightarrow> m (fixture_data w s n))"

text \<open>
  The errors the bulk-creates of the names \<open>ns\<close> report, each with the time at which it
  is reported, in the order of the names.
\<close>

fun failures :: "world \<Rightarrow> module_state \<Rightarrow> string list \<Rightarrow> (nat \<times> err) list" where
  "failures w s [] = []"
| "failures w s (n # ns) =
     (case reported w s n of
        None \<Rightarrow> failures w s ns
      | Some e \<Rightarrow> (completion w n, e) # failures w s ns)"

text \<open>
  The names one \<^verbatim>\<open>setupFixtures\<close> or \<^verbatim>\<open>teardownFixtures\<close> call works on, read off
  the state \<open>s\<close> in which the names are used: the names of a string selection, and
  the stored \<^verbatim>\<open>fixtureNames\<close> otherwise (none while that is undefined).
\<close>

definition targets :: "select \<Rightarrow> module_state \<Rightarrow> string list" where
  "targets sel s =
     (if typeof sel \<noteq> ''string'' then (case fixtureNames s of None \<Rightarrow> [] | Some ns \<Rightarrow> ns)
      else select_names sel)"

text \<open>The events that read the file of the fixture \<open>n\<close>.\<close>

definition reads_of :: "string \<Rightarrow> event list \<Rightarrow> event list" where
  "reads_of n evs = filter (is_require_of n) evs"

text \<open>
  The auto-migrate calls one data source receives in a teardown over \<open>names\<close>: one call
  for the whole data source while \<^verbatim>\<open>fixtureNames\<close> is undefined, and otherwise one call
  per name, first the names as given, then their lowercase variants.
\<close>

definition migrations :: "module_state \<Rightarrow> string list \<Rightarrow> string \<Rightarrow> event list" where
  "migrations s names dataSourceName =
     (case fixtureNames s of
        None \<Rightarrow> [Automigrate dataSourceName None]
      | Some known \<Rightarrow>
          map (\<lambda>m. Automigrate dataSourceName (Some m)) (names @ map toLowerCase names))"

section \<open>Vocabulary of the specification\<close>

text \<open>
  The environment gate in the specification's words: a membership test when
  \<^verbatim>\<open>environments\<close> is a list, equality when it is a scalar.
\<close>

fun spec_environment_match :: "environments \<Rightarrow> string option \<Rightarrow> bool" where
  "spec_environment_match (EnvList xs) e = (e \<in> Some ` set xs)"
| "spec_environment_match (EnvScalar x) e = (e = Some x)"

text \<open>
  The specification's fixture name of a file name: the name without its last five
  characters, the extension \<^verbatim>\<open>.json\<close>.
\<close>

definition spec_fixture_name :: "string \<Rightarrow> string" where
  "spec_fixture_name fileName = take (length fileName - length ''.json'') fileName"

section \<open>A small application used for concrete runs\<close>

text \<open>
  A fixtures directory \<^verbatim>\<open>/app/fx/\<close> with the files \<^verbatim>\<open>a.json\<close> and \<^verbatim>\<open>b.json\<close> (and
  one file that is no fixture), models \<^verbatim>\<open>a\<close> and \<^verbatim>\<open>b\<close> whose bulk-create succeeds,
  and one data source \<^verbatim>\<open>db\<close>.
\<close>

definition ex_records_a :: jsval where
  "ex_records_a = JArr [JObj [(''name'', JStr ''Ann'')], JObj [(''name'', JStr ''Bo'')]]"

definition ex_records_b :: jsval where
  "ex_records_b = JArr [JObj [(''id'', JNum 1)]]"

definition ex_world :: world where
  "ex_world =
     \<lparr>readdirSync =
        (\<lambda>p. if p = ''/app/fx/'' then Some [''a.json'', ''b.json'', ''notes.txt''] else None),
      require =
        (\<lambda>p. if p = ''/app/fx/a'' then Some ex_records_a
             else if p = ''/app/fx/b'' then Some ex_records_b
             else None),
      join_appRoot = (\<lambda>p. ''/app'' @ p),
      NODE_ENV = Some ''test'',
      completion = (\<lambda>n. 0)\<rparr>"

text \<open>The same directory before \<^verbatim>\<open>b.json\<close> was put there.\<close>

definition ex_world_early :: world where
  "ex_world_early =
     \<lparr>readdirSync = (\<lambda>p. if p = ''/app/fx/'' then Some [''a.json''] else None),
      require = (\<lambda>p. if p = ''/app/fx/a'' then Some ex_records_a else None),
      join_appRoot = (\<lambda>p. ''/app'' @ p),
      NODE_ENV = Some ''test'',
      completion = (\<lambda>n. 0)\<rparr>"

definition ex_app :: app where
  "ex_app =
     \<lparr>app_models = [''a'' \<mapsto> (\<lambda>d. None), ''b'' \<mapsto> (\<lambda>d. None)],
      settings_env = None,
      datasources = [(''db'', (\<lambda>m. None))]\<rparr>"

text \<open>An application whose model \<^verbatim>\<open>b\<close> rejects every bulk-create.\<close>

definition ex_app_rejecting :: app where
  "ex_app_rejecting =
     \<lparr>app_models = [''a'' \<mapsto> (\<lambda>d. None), ''b'' \<mapsto> (\<lambda>d. Some ''duplicate key'')],
      settings_env = None,
      datasources = [(''db'', (\<lambda>m. Some ''not attached''))]\<rparr>"

definition ex_options :: options where
  "ex_options =
     \<lparr>opt_loadFixturesOnStartup = None,
      opt_errorOnSetupFailure = None,
      opt_environments = None,
      opt_fixturesPath = Some ''/fx/''\<rparr>"

definition ex_options_strict :: options where
  "ex_options_strict =
     \<lparr>opt_loadFixturesOnStartup = None,
      opt_errorOnSetupFailure = Some True,
      opt_environments = None,
      opt_fixturesPath = Some ''/fx/''\<rparr>"

text \<open>The module state right after the component was initialised: nothing loaded yet.\<close>

definition ex_initialised :: module_state where
  "ex_initialised = post (init ex_world ex_app ex_options module_initial)"

text \<open>The module state once every fixture of the directory has been set up.\<close>

definition ex_loaded :: module_state where
  "ex_loaded = post (setupFixtures ex_world SelAbsent ex_initialised)"

text \<open>An application with a model for \<^verbatim>\<open>a\<close> only: none is registered under \<^verbatim>\<open>b\<close>.\<close>

definition ex_app_partial :: app where
  "ex_app_partial =
     \<lparr>app_models = [''a'' \<mapsto> (\<lambda>d. None)],
      settings_env = None,
      datasources = [(''db'', (\<lambda>m. None))]\<rparr>"

text \<open>
  Options that gate the component to two environments and ask for the startup load,
  and a process running in a third environment.
\<close>

definition ex_options_gated :: options where
  "ex_options_gated =
     \<lparr>opt_loadFixturesOnStartup = Some True,
      opt_errorOnSetupFailure = None,
      opt_environments = Some (EnvList [''test'', ''staging'']),
      opt_fixturesPath = Some ''/fx/''\<rparr>"

definition ex_world_dev :: world where
  "ex_world_dev = ex_world\<lparr>NODE_ENV := Some ''dev''\<rparr>"

text \<open>Options that name nothing.\<close>

definition ex_options_none :: options where
  "ex_options_none =
     \<lparr>opt_loadFixturesOnStartup = None,
      opt_errorOnSetupFailure = None,
      opt_environments = None,
      opt_fixturesPath = None\<rparr>"

text \<open>
  Module states of the small application: initialised with an application that has no
  model \<^verbatim>\<open>b\<close>; initialised with the application whose model \<^verbatim>\<open>b\<close> rejects, with
  \<^verbatim>\<open>errorOnSetupFailure\<close> left off and switched on; and the state after a first setup
  that ran while the directory held \<^verbatim>\<open>a.json\<close> only.
\<close>

definition ex_partial :: module_state where
  "ex_partial = post (init ex_world ex_app_partial ex_options module_initial)"

definition ex_rejecting :: module_state where
  "ex_rejecting = post (init ex_world ex_app_rejecting ex_options module_initial)"

definition ex_rejecting_strict :: module_state where
  "ex_rejecting_strict = post (init ex_world ex_app_rejecting ex_options_strict module_initial)"

definition ex_loaded_early :: module_state where
  "ex_loaded_early = post (setupFixtures ex_world_early SelAbsent ex_initialised)"

text \<open>A directory with a file whose name holds \<^verbatim>\<open>.json\<close> twice.\<close>

definition ex_world_backup :: world where
  "ex_world_backup =
     \<lparr>readdirSync =
        (\<lambda>p. if p = ''/app/fx/'' then Some [''a.json.bak.json'', ''users.json'', ''readme.md'']
             else None),
      require = (\<lambda>p. None),
      join_appRoot = (\<lambda>p. ''/app'' @ p),
      NODE_ENV = Some ''test'',
      completion = (\<lambda>n. 0)\<rparr>"

text \<open>
  An application whose two models both reject, a world in which the bulk-creates call
  back after the running call has returned, the one of \<^verbatim>\<open>b\<close> first, and options that
  ask for the startup load with \<^verbatim>\<open>errorOnSetupFailure\<close> on.
\<close>

definition ex_app_rejecting_both :: app where
  "ex_app_rejecting_both =
     \<lparr>app_models = [''a'' \<mapsto> (\<lambda>d. Some ''bad record''), ''b'' \<mapsto> (\<lambda>d. Some ''duplicate key'')],
      settings_env = None,
      datasources = [(''db'', (\<lambda>m. None))]\<rparr>"

definition ex_world_async :: world where
  "ex_world_async = ex_world\<lparr>completion := (\<lambda>n. if n = ''a'' then 2 else 1)\<rparr>"

definition ex_options_startup_strict :: options where
  "ex_options_startup_strict =
     \<lparr>opt_loadFixturesOnStartup = Some True,
      opt_errorOnSetupFailure = Some True,
      opt_environments = None,
      opt_fixturesPath = Some ''/fx/''\<rparr>"

definition ex_rejecting_both_strict :: module_state where
  "ex_rejecting_both_strict =
     post (init ex_world ex_app_rejecting_both ex_options_strict module_initial)"

text \<open>A directory whose only fixture file is named after a member of every object.\<close>

definition ex_world_constructor :: world where
  "ex_world_constructor =
     \<lparr>readdirSync = (\<lambda>p. if p = ''/app/fx/'' then Some [''constructor.json''] else None),
      require = (\<lambda>p. if p = ''/app/fx/constructor'' then Some ex_records_a else None),
      join_appRoot = (\<lambda>p. ''/app'' @ p),
      NODE_ENV = Some ''test'',
      completion = (\<lambda>n. 0)\<rparr>"

definition ex_app_constructor :: app where
  "ex_app_constructor =
     \<lparr>app_models = [''constructor'' \<mapsto> (\<lambda>d. None)],
      settings_env = None,
      datasources = [(''db'', (\<lambda>m. None))]\<rparr>"

text \<open>A world in which the fixtures directory cannot be listed.\<close>

definition ex_world_unreadable :: world where
  "ex_world_unreadable = ex_world\<lparr>readdirSync := (\<lambda>p. None)\<rparr>"

text \<open>
  Two more module states: the component initialised over the directory that holds
  \<^verbatim>\<open>constructor.json\<close>, and the state a first setup leaves behind when the directory
  could not be listed.
\<close>

definition ex_constructor_initialised :: module_state where
  "ex_constructor_initialised =
     post (init ex_world_constructor ex_app_constructor ex_options module_initial)"

definition ex_unlisted :: module_state where
  "ex_unlisted = post (setupFixtures ex_world_unreadable SelAbsent ex_initialised)"

section \<open>One fixture load\<close>

lemma loadFixture_loadable:
  assumes "cachedFixtures s = Some c" and "loadable w s n"
  shows "loadFixture w n s =
           \<lparr>post = (if is_cached s n then s
                    else s\<lparr>cachedFixtures := Some (c(n \<mapsto> fixture_data w s n))\<rparr>),
            events = (if is_cached s n then [] else [Require (fixturePath s) n])
                       @ [Create n (fixture_data w s n)],
            outcome = Finished (reported w s n)\<rparr>"
proof (cases "is_cached s n")
  case True
  then have t: "truthy (cache_lookup c n)"
    using assms(1) by (simp add: is_cached_def cached_value_def)
  obtain m where m: "models s n = Some m"
    using assms(2) by (auto simp: loadable_def)
  show ?thesis
    using True t m assms(1)
    by (simp add: loadFixture_def Let_def fixture_data_def cached_value_def reported_def)
next
  case False
  then have nt: "\<not> truthy (cache_lookup c n)"
    using assms(1) by (simp add: is_cached_def cached_value_def)
  obtain m where m: "models s n = Some m"
    using assms(2) by (auto simp: loadable_def)
  obtain d where d: "require w (fixturePath s @ n) = Some d"
    using assms(2) False by (auto simp: loadable_def)
  have upd: "cache_lookup (c(n \<mapsto> d)) n = d"
    by (simp add: cache_lookup_def)
  have fd: "fixture_data w s n = d"
    using False d by (simp add: fixture_data_def required_def)
  show ?thesis
    using False nt m d assms(1)
    by (simp add: loadFixture_def addToCache_def Let_def upd fd reported_def)
qed

lemma loadFixture_frame:
  "models (post (loadFixture w n s)) = models s \<and>
   fixturePath (post (loadFixture w n s)) = fixturePath s \<and>
   config (post (loadFixture w n s)) = config s \<and>
   defaults (post (loadFixture w n s)) = defaults s \<and>
   fixtureNames (post (loadFixture w n s)) = fixtureNames s \<and>
   (cachedFixtures (post (loadFixture w n s)) = None) = (cachedFixtures s = None)"
  by (auto simp: loadFixture_def addToCache_def Let_def split: option.splits)

lemma cache_lookup_other:
  "m \<noteq> n \<Longrightarrow> cache_lookup (c(n \<mapsto> d)) m = cache_lookup c m"
  by (simp add: cache_lookup_def)

lemma cache_lookup_same:
  "cache_lookup (c(n \<mapsto> d)) n = d"
  by (simp add: cache_lookup_def)

lemma loadFixture_post_cases:
  "post (loadFixture w n s) = s \<or>
   (\<exists>c d. cachedFixtures s = Some c \<and> \<not> truthy (cache_lookup c n) \<and>
          require w (fixturePath s @ n) = Some d \<and>
          post (loadFixture w n s) = s\<lparr>cachedFixtures := Some (c(n \<mapsto> d))\<rparr>)"
  by (auto simp: loadFixture_def addToCache_def Let_def split: option.splits)

lemma loadFixture_cached_value:
  assumes "truthy (cached_value s m)"
  shows "cached_value (post (loadFixture w n s)) m = cached_value s m"
proof -
  from loadFixture_post_cases [of w n s] show ?thesis
  proof
    assume "post (loadFixture w n s) = s"
    then show ?thesis by simp
  next
    assume "\<exists>c d. cachedFixtures s = Some c \<and> \<not> truthy (cache_lookup c n) \<and>
          require w (fixturePath s @ n) = Some d \<and>
          post (loadFixture w n s) = s\<lparr>cachedFixtures := Some (c(n \<mapsto> d))\<rparr>"
    then obtain c d where c: "cachedFixtures s = Some c"
      and nt: "\<not> truthy (cache_lookup c n)"
      and p: "post (loadFixture w n s) = s\<lparr>cachedFixtures := Some (c(n \<mapsto> d))\<rparr>"
      by blast
    have "m \<noteq> n" using assms nt c by (auto simp: cached_value_def)
    then show ?thesis
      by (simp add: p c cached_value_def cache_lookup_other)
  qed
qed

lemma loadFixture_events_cases:
  "events (loadFixture w n s) = [] \<or>
   (\<exists>d. events (loadFixture w n s) = [Create n d]) \<or>
   (\<not> is_cached s n \<and>
      (events (loadFixture w n s) = [Require (fixturePath s) n] \<or>
       (\<exists>d. events (loadFixture w n s) = [Require (fixturePath s) n, Create n d])))"
  by (auto simp: loadFixture_def addToCache_def Let_def is_cached_def cached_value_def
      split: option.splits)

lemma loadFixture_no_require:
  assumes "truthy (cached_value s m)"
  shows "list_all (\<lambda>e. \<not> is_require_of m e) (events (loadFixture w n s))"
proof -
  have "\<not> is_cached s n \<Longrightarrow> m \<noteq> n"
    using assms by (auto simp: is_cached_def)
  then show ?thesis
    using loadFixture_events_cases [of w n s] by auto
qed


lemma loadFixture_fixture_data:
  "fixture_data w (post (loadFixture w n s)) m = fixture_data w s m"
proof -
  from loadFixture_post_cases [of w n s] show ?thesis
  proof
    assume "post (loadFixture w n s) = s"
    then show ?thesis by simp
  next
    assume "\<exists>c d. cachedFixtures s = Some c \<and> \<not> truthy (cache_lookup c n) \<and>
          require w (fixturePath s @ n) = Some d \<and>
          post (loadFixture w n s) = s\<lparr>cachedFixtures := Some (c(n \<mapsto> d))\<rparr>"
    then obtain c d where c: "cachedFixtures s = Some c"
      and nt: "\<not> truthy (cache_lookup c n)"
      and d: "require w (fixturePath s @ n) = Some d"
      and p: "post (loadFixture w n s) = s\<lparr>cachedFixtures := Some (c(n \<mapsto> d))\<rparr>"
      by blast
    show ?thesis
    proof (cases "m = n")
      case True
      then show ?thesis
        using nt d
        by (simp add: p c fixture_data_def is_cached_def cached_value_def required_def
            cache_lookup_same)
    next
      case False
      then show ?thesis
        by (simp add: p c fixture_data_def is_cached_def cached_value_def required_def
            cache_lookup_other)
    qed
  qed
qed

lemma loadFixture_loadable_pres:
  assumes "loadable w s m"
  shows "loadable w (post (loadFixture w n s)) m"
proof -
  from loadFixture_post_cases [of w n s] show ?thesis
  proof
    assume "post (loadFixture w n s) = s"
    then show ?thesis using assms by simp
  next
    assume "\<exists>c d. cachedFixtures s = Some c \<and> \<not> truthy (cache_lookup c n) \<and>
          require w (fixturePath s @ n) = Some d \<and>
          post (loadFixture w n s) = s\<lparr>cachedFixtures := Some (c(n \<mapsto> d))\<rparr>"
    then obtain c d where c: "cachedFixtures s = Some c"
      and nt: "\<not> truthy (cache_lookup c n)"
      and d: "require w (fixturePath s @ n) = Some d"
      and p: "post (loadFixture w n s) = s\<lparr>cachedFixtures := Some (c(n \<mapsto> d))\<rparr>"
      by blast
    show ?thesis
    proof (cases "m = n")
      case True
      then show ?thesis
        using assms d by (simp add: p loadable_def)
    next
      case False
      then show ?thesis
        using assms
        by (simp add: p c loadable_def is_cached_def cached_value_def cache_lookup_other)
    qed
  qed
qed

lemma loadFixture_reported:
  "reported w (post (loadFixture w n s)) m = reported w s m"
  by (simp add: reported_def loadFixture_frame loadFixture_fixture_data cong: option.case_cong)

section \<open>The join over fixture loads\<close>

lemma async_each_fields:
  "post (async_each rank k f xs s) = st_post (start_each rank k f xs False s)"
  "events (async_each rank k f xs s) = st_events (start_each rank k f xs False s)"
  by (simp_all add: async_each_def Let_def)

lemma start_load_frame:
  "models (st_post (start_each rank k (loadFixture w) ns fired s)) = models s \<and>
   fixturePath (st_post (start_each rank k (loadFixture w) ns fired s)) = fixturePath s \<and>
   config (st_post (start_each rank k (loadFixture w) ns fired s)) = config s \<and>
   defaults (st_post (start_each rank k (loadFixture w) ns fired s)) = defaults s \<and>
   fixtureNames (st_post (start_each rank k (loadFixture w) ns fired s)) = fixtureNames s \<and>
   (cachedFixtures (st_post (start_each rank k (loadFixture w) ns fired s)) = None) =
     (cachedFixtures s = None)"
proof (induction ns arbitrary: fired s)
  case Nil
  show ?case by simp
next
  case (Cons n ns)
  show ?case
    using Cons.IH loadFixture_frame [of w n s]
    by (simp add: Let_def split: outcome.splits option.splits)
qed

lemma start_load_cached_value:
  "truthy (cached_value s m) \<Longrightarrow>
   cached_value (st_post (start_each rank k (loadFixture w) ns fired s)) m = cached_value s m"
proof (induction ns arbitrary: fired s)
  case Nil
  show ?case by simp
next
  case (Cons n ns)
  have step: "cached_value (post (loadFixture w n s)) m = cached_value s m"
    using Cons.prems by (rule loadFixture_cached_value)
  then have "truthy (cached_value (post (loadFixture w n s)) m)"
    using Cons.prems by simp
  then show ?case
    using Cons.IH step by (simp add: Let_def split: outcome.splits option.splits)
qed

lemma start_load_no_require:
  "truthy (cached_value s m) \<Longrightarrow>
   list_all (\<lambda>e. \<not> is_require_of m e)
     (st_events (start_each rank k (loadFixture w) ns fired s))"
proof (induction ns arbitrary: fired s)
  case Nil
  show ?case by simp
next
  case (Cons n ns)
  have step: "cached_value (post (loadFixture w n s)) m = cached_value s m"
    using Cons.prems by (rule loadFixture_cached_value)
  then have "truthy (cached_value (post (loadFixture w n s)) m)"
    using Cons.prems by simp
  then show ?case
    using Cons.IH loadFixture_no_require [OF Cons.prems, of w n]
    by (simp add: Let_def split: outcome.splits option.splits)
qed


lemma failures_cong:
  "reported w s' = reported w s \<Longrightarrow> failures w s' ns = failures w s ns"
  by (induction ns) (simp_all split: option.splits)

text \<open>
  When every name can be loaded and the final callback does not throw on any error
  that is reported, every name is started: one bulk-create each, in order, and the
  errors are those the bulk-creates report.
\<close>

lemma start_load_loadable:
  assumes "cachedFixtures s \<noteq> None"
    and "\<forall>n \<in> set ns. loadable w s n"
    and "\<forall>n \<in> set ns. \<forall>e. reported w s n = Some e \<longrightarrow> k e = None"
  shows "st_escaped (start_each (completion w) k (loadFixture w) ns fired s) = None \<and>
         st_errors (start_each (completion w) k (loadFixture w) ns fired s) = failures w s ns \<and>
         creates (st_events (start_each (completion w) k (loadFixture w) ns fired s)) =
           map (\<lambda>n. Create n (fixture_data w s n)) ns"
  using assms
proof (induction ns arbitrary: fired s)
  case Nil
  show ?case by (simp add: creates_def)
next
  case (Cons n ns)
  obtain c where c: "cachedFixtures s = Some c" using Cons.prems(1) by auto
  have ld: "loadable w s n" using Cons.prems(2) by simp
  let ?r = "loadFixture w n s"
  have r: "outcome ?r = Finished (reported w s n)"
    and ev: "creates (events ?r) = [Create n (fixture_data w s n)]"
    using loadFixture_loadable [OF c ld] by (simp_all add: creates_def)
  have c': "cachedFixtures (post ?r) \<noteq> None"
    using loadFixture_frame [of w n s] Cons.prems(1) by simp
  have ld': "\<forall>m \<in> set ns. loadable w (post ?r) m"
    using Cons.prems(2) by (simp add: loadFixture_loadable_pres)
  have rep: "reported w (post ?r) = reported w s"
    by (rule ext) (rule loadFixture_reported)
  have fd: "fixture_data w (post ?r) = fixture_data w s"
    by (rule ext) (rule loadFixture_fixture_data)
  have fl: "failures w (post ?r) ns = failures w s ns"
    using rep by (rule failures_cong)
  have k': "\<forall>m \<in> set ns. \<forall>e. reported w (post ?r) m = Some e \<longrightarrow> k e = None"
    using Cons.prems(3) by (simp add: rep)
  note IH = Cons.IH [OF c' ld' k', unfolded fd fl]
  show ?case
  proof (cases "reported w s n")
    case None
    then show ?thesis
      using r ev IH by (simp add: Let_def creates_def)
  next
    case (Some e)
    then have "k e = None" using Cons.prems(3) by simp
    then show ?thesis
      using Some r ev IH by (simp add: Let_def creates_def)
  qed
qed

section \<open>Teardown\<close>

lemma start_remigrate:
  "st_post (start_each (\<lambda>m. 0) (\<lambda>e. None) (remigrateModel n ds) ms fired s) = s \<and>
   st_events (start_each (\<lambda>m. 0) (\<lambda>e. None) (remigrateModel n ds) ms fired s) =
     map (\<lambda>m. Automigrate n (Some m)) ms \<and>
   st_escaped (start_each (\<lambda>m. 0) (\<lambda>e. None) (remigrateModel n ds) ms fired s) = None"
proof (induction ms arbitrary: fired)
  case Nil
  show ?case by simp
next
  case (Cons m ms)
  have step: "post (remigrateModel n ds m s) = s"
    "events (remigrateModel n ds m s) = [Automigrate n (Some m)]"
    "outcome (remigrateModel n ds m s) = Finished (ds (Some m))"
    by (simp_all add: remigrateModel_def)
  show ?case
    by (cases "ds (Some m)") (simp_all add: Cons.IH step Let_def)
qed

lemma each_remigrate:
  "post (async_each (\<lambda>m. 0) (\<lambda>e. None) (remigrateModel n ds) ms s) = s \<and>
   events (async_each (\<lambda>m. 0) (\<lambda>e. None) (remigrateModel n ds) ms s) =
     map (\<lambda>m. Automigrate n (Some m)) ms \<and>
   (\<exists>e. outcome (async_each (\<lambda>m. 0) (\<lambda>e. None) (remigrateModel n ds) ms s) = Finished e)"
  using start_remigrate [of n ds ms False s]
  by (simp add: async_each_def Let_def)

lemma migrateDataSource_run:
  assumes "fixtureNames s \<noteq> None \<Longrightarrow> todo = Some names"
  shows "post (migrateDataSource todo d s) = s \<and>
         events (migrateDataSource todo d s) = migrations s names (fst d) \<and>
         (\<exists>e. outcome (migrateDataSource todo d s) = Finished e)"
proof (cases "fixtureNames s")
  case None
  then show ?thesis
    by (cases d) (simp add: migrateDataSource_def migrations_def)
next
  case (Some known)
  then have "todo = Some names" using assms by simp
  then show ?thesis
    using Some each_remigrate [of "fst d" "snd d" "names @ map toLowerCase names" s]
    by (cases d) (simp add: migrateDataSource_def migrations_def Let_def)
qed

lemma start_migrate:
  assumes "fixtureNames s \<noteq> None \<Longrightarrow> todo = Some names"
  shows "st_post (start_each (\<lambda>d. 0) (\<lambda>e. None) (migrateDataSource todo) dss fired s) = s \<and>
         st_events (start_each (\<lambda>d. 0) (\<lambda>e. None) (migrateDataSource todo) dss fired s) =
           concat (map (\<lambda>d. migrations s names (fst d)) dss) \<and>
         st_escaped (start_each (\<lambda>d. 0) (\<lambda>e. None) (migrateDataSource todo) dss fired s) = None"
proof (induction dss arbitrary: fired)
  case Nil
  show ?case by simp
next
  case (Cons d dss)
  obtain e where e: "outcome (migrateDataSource todo d s) = Finished e"
    using migrateDataSource_run [OF assms] by blast
  show ?case
    using migrateDataSource_run [OF assms, where d = d] e Cons.IH
    by (cases e) (simp_all add: Let_def)
qed

lemma teardown_todo:
  "fixtureNames s \<noteq> None \<Longrightarrow>
   (if typeof sel \<noteq> ''string'' then fixtureNames s else Some (select_names sel)) =
     Some (targets sel s)"
  by (auto simp: targets_def)

lemma teardownFixtures_run:
  "post (teardownFixtures a sel s) = s \<and>
   events (teardownFixtures a sel s) =
     concat (map (\<lambda>d. migrations s (targets sel s) (fst d)) (datasources a)) \<and>
   outcome (teardownFixtures a sel s) = Finished (None, Some ''teardown complete'')"
proof -
  let ?todo = "if typeof sel \<noteq> ''string'' then fixtureNames s else Some (select_names sel)"
  have g: "fixtureNames s \<noteq> None \<Longrightarrow> ?todo = Some (targets sel s)"
    by (rule teardown_todo)
  show ?thesis
    using start_migrate [OF g, where dss = "datasources a" and fired = False]
    by (simp add: teardownFixtures_def async_each_def Let_def)
qed

text \<open>
  Claim C4. Whatever the auto-migrate operations of the data sources report, and
  whatever the selection and the module state, \<^verbatim>\<open>teardownFixtures\<close> ends by invoking
  its callback with no error and the message \<^verbatim>\<open>teardown complete\<close>; no exception
  escapes.
\<close>

theorem teardownFixtures_always_reports_success:
  "outcome (teardownFixtures a sel s) = Finished (None, Some ''teardown complete'')"
  using teardownFixtures_run [of a sel s] by simp

section \<open>Initialisation and the environment gate\<close>

text \<open>The definitions a concrete run unfolds.\<close>

lemmas run_defs =
  init_def configure_def merge_def active_environment_def environment_match_def indexOf_def
  setupFixtures_def loadFixtures_def ensureCache_def createFixtureList_def ends_with_def
  loadFixture_def addToCache_def cache_lookup_def object_prototype_members_def
  setupCallback_def async_each_def
  teardownFixtures_def migrateDataSource_def remigrateModel_def toLowerCase_def lower_char_def
  startupCallback_def creates_def reads_of_def Let_def

lemmas ex_defs =
  ex_world_def ex_world_early_def ex_world_dev_def ex_world_async_def ex_world_constructor_def
  ex_world_unreadable_def
  ex_app_def ex_app_rejecting_def ex_app_rejecting_both_def ex_app_constructor_def
  ex_app_partial_def ex_options_def ex_options_strict_def ex_options_gated_def
  ex_options_startup_strict_def
  ex_options_none_def module_initial_def documented_defaults_def

lemma indexOf_from_found:
  "0 \<le> i \<Longrightarrow> (indexOf_from i xs x = - 1) = (x \<notin> set xs)"
  by (induction xs arbitrary: i) auto

lemma environment_match_spec:
  "environment_match envs e = spec_environment_match envs e"
  by (cases envs) (auto simp: environment_match_def indexOf_def indexOf_from_found)

lemma ensureCache_frame:
  "models (post (ensureCache w s)) = models s \<and>
   fixturePath (post (ensureCache w s)) = fixturePath s \<and>
   config (post (ensureCache w s)) = config s \<and>
   defaults (post (ensureCache w s)) = defaults s \<and>
   cachedFixtures (post (ensureCache w s)) \<noteq> None"
  by (simp add: ensureCache_def split: sum.splits del: not_None_eq)

lemma loadFixtures_frame:
  "models (post (loadFixtures w fixtures k s)) = models s \<and>
   fixturePath (post (loadFixtures w fixtures k s)) = fixturePath s \<and>
   config (post (loadFixtures w fixtures k s)) = config s \<and>
   defaults (post (loadFixtures w fixtures k s)) = defaults s \<and>
   cachedFixtures (post (loadFixtures w fixtures k s)) \<noteq> None"
  using ensureCache_frame [of w s]
  by (simp add: loadFixtures_def Let_def async_each_fields start_load_frame
      split: outcome.splits option.splits del: not_None_eq)

lemma configure_fields:
  "defaults (configure w a opts s) = merge (defaults s) opts \<and>
   config (configure w a opts s) = merge (defaults s) opts \<and>
   cachedFixtures (configure w a opts s) = cachedFixtures s \<and>
   fixtureNames (configure w a opts s) = fixtureNames s"
  by (simp add: configure_def Let_def)

lemma init_config:
  "defaults (post (init w a opts s)) = merge (defaults s) opts \<and>
   config (post (init w a opts s)) = merge (defaults s) opts"
  by (simp add: init_def Let_def configure_fields loadFixtures_frame)

section \<open>Loading a list of fixtures\<close>

lemma ensureCache_ready:
  "cachedFixtures s \<noteq> None \<Longrightarrow>
   ensureCache w s = \<lparr>post = s, events = [], outcome = Finished ()\<rparr>"
  by (auto simp: ensureCache_def)

lemma ensureCache_fresh:
  assumes "cachedFixtures s = None" and "createFixtureList w s = Inr names"
  shows "ensureCache w s =
           \<lparr>post = s\<lparr>cachedFixtures := Some Map.empty, fixtureNames := Some names\<rparr>,
            events = [Readdir (fixturePath s)], outcome = Finished ()\<rparr>"
  using assms by (simp add: ensureCache_def createFixtureList_def split: option.splits)

lemma ensureCache_failed:
  assumes "cachedFixtures s = None" and "createFixtureList w s = Inl x"
  shows "ensureCache w s =
           \<lparr>post = s\<lparr>cachedFixtures := Some Map.empty\<rparr>,
            events = [Readdir (fixturePath s)], outcome = Raised x None\<rparr>"
  using assms by (simp add: ensureCache_def createFixtureList_def split: option.splits)

lemma async_each_nil:
  "async_each rank k f [] s = \<lparr>post = s, events = [], outcome = Finished None, late = None\<rparr>"
  by (simp add: async_each_def)

lemma loadFixtures_listed:
  assumes "outcome (ensureCache w s) = Finished ()"
  shows "loadFixtures w fixtures k s =
           \<lparr>post = post (async_each (completion w) k (loadFixture w)
                  (case fixtures of
                     None \<Rightarrow> (case fixtureNames (post (ensureCache w s)) of
                                None \<Rightarrow> [] | Some ns \<Rightarrow> ns)
                   | Some fs \<Rightarrow> fs) (post (ensureCache w s))),
            events = events (ensureCache w s) @
              events (async_each (completion w) k (loadFixture w)
                  (case fixtures of
                     None \<Rightarrow> (case fixtureNames (post (ensureCache w s)) of
                                None \<Rightarrow> [] | Some ns \<Rightarrow> ns)
                   | Some fs \<Rightarrow> fs) (post (ensureCache w s))),
            outcome = outcome (async_each (completion w) k (loadFixture w)
                  (case fixtures of
                     None \<Rightarrow> (case fixtureNames (post (ensureCache w s)) of
                                None \<Rightarrow> [] | Some ns \<Rightarrow> ns)
                   | Some fs \<Rightarrow> fs) (post (ensureCache w s))),
            late = late (async_each (completion w) k (loadFixture w)
                  (case fixtures of
                     None \<Rightarrow> (case fixtureNames (post (ensureCache w s)) of
                                None \<Rightarrow> [] | Some ns \<Rightarrow> ns)
                   | Some fs \<Rightarrow> fs) (post (ensureCache w s)))\<rparr>"
  using assms
  by (simp add: loadFixtures_def Let_def async_each_nil split: option.splits)


lemma earliest_none:
  "(earliest ps = None) = (ps = [])"
  by (induction ps) (auto split: option.splits)

lemma earliest_member:
  "earliest ps = Some p \<Longrightarrow> p \<in> set ps \<and> (\<forall>q \<in> set ps. fst p \<le> fst q)"
proof (induction ps arbitrary: p)
  case Nil
  then show ?case by simp
next
  case (Cons a ps)
  show ?case
  proof (cases "earliest ps")
    case None
    then have "ps = []" by (simp add: earliest_none)
    then show ?thesis using Cons.prems by simp
  next
    case (Some q)
    note IH = Cons.IH [OF Some]
    show ?thesis
    proof (cases "fst q < fst a")
      case True
      then have "p = q" using Cons.prems Some by simp
      then show ?thesis using IH True by auto
    next
      case False
      then have "p = a" using Cons.prems Some by simp
      then show ?thesis using IH False by fastforce
    qed
  qed
qed

lemma failures_set:
  "set (failures w s ns) = {(completion w n, e) | n e. n \<in> set ns \<and> reported w s n = Some e}"
  by (induction ns) (auto split: option.splits)

lemma failures_nil:
  "\<forall>n \<in> set ns. reported w s n = None \<Longrightarrow> failures w s ns = []"
  by (induction ns) simp_all

lemma async_load_loadable:
  assumes "cachedFixtures s \<noteq> None"
    and "\<forall>n \<in> set ns. loadable w s n"
    and "\<forall>n \<in> set ns. \<forall>e. reported w s n = Some e \<longrightarrow> k e = None"
  shows "outcome (async_each (completion w) k (loadFixture w) ns s) =
           Finished (map_option snd (earliest (failures w s ns)))"
    and "creates (events (async_each (completion w) k (loadFixture w) ns s)) =
           map (\<lambda>n. Create n (fixture_data w s n)) ns"
    and "late (async_each (completion w) k (loadFixture w) ns s) = None"
proof -
  note st = start_load_loadable [OF assms, of False]
  show "outcome (async_each (completion w) k (loadFixture w) ns s) =
           Finished (map_option snd (earliest (failures w s ns)))"
    using st by (simp add: async_each_def Let_def)
  show "creates (events (async_each (completion w) k (loadFixture w) ns s)) =
           map (\<lambda>n. Create n (fixture_data w s n)) ns"
    using st by (simp add: async_each_def Let_def)
  show "late (async_each (completion w) k (loadFixture w) ns s) = None"
  proof (cases "earliest (failures w s ns)")
    case None
    then show ?thesis using st by (simp add: async_each_def Let_def)
  next
    case (Some p)
    then have "p \<in> set (failures w s ns)" using earliest_member by blast
    then obtain n where "n \<in> set ns" and "reported w s n = Some (snd p)"
      by (auto simp: failures_set)
    then have "k (snd p) = None" using assms(3) by blast
    then show ?thesis using st Some by (simp add: async_each_def Let_def)
  qed
qed

section \<open>The startup load\<close>

lemma init_no_load:
  assumes "\<not> (spec_environment_match (environments (merge (defaults s) opts))
               (active_environment w a) \<and>
             loadFixturesOnStartup (merge (defaults s) opts))"
  shows "init w a opts s =
           \<lparr>post = configure w a opts s, events = [], outcome = Finished (), uncaught = None\<rparr>"
  using assms
  by (auto simp: init_def Let_def configure_fields environment_match_spec)

lemma init_load:
  assumes "spec_environment_match (environments (merge (defaults s) opts))
             (active_environment w a)"
    and "loadFixturesOnStartup (merge (defaults s) opts)"
  shows "init w a opts s =
           \<lparr>post = post (loadFixtures w None (startupCallback (merge (defaults s) opts))
                          (configure w a opts s)),
            events = events (loadFixtures w None (startupCallback (merge (defaults s) opts))
                          (configure w a opts s)),
            outcome = (case outcome (loadFixtures w None
                                       (startupCallback (merge (defaults s) opts))
                                       (configure w a opts s)) of
                         Finished e \<Rightarrow> Finished ()
                       | Raised x c \<Rightarrow> Raised x None),
            uncaught = late (loadFixtures w None (startupCallback (merge (defaults s) opts))
                          (configure w a opts s))\<rparr>"
  using assms
  by (simp add: init_def Let_def configure_fields environment_match_spec)

lemma loadFixtures_fresh_lists:
  assumes "cachedFixtures s = None"
  shows "Readdir (fixturePath s) \<in> set (events (loadFixtures w fixtures k s))"
proof (cases "createFixtureList w s")
  case (Inl x)
  from ensureCache_failed [OF assms Inl] show ?thesis
    by (simp add: loadFixtures_def Let_def)
next
  case (Inr names)
  note ec = ensureCache_fresh [OF assms Inr]
  then have fin: "outcome (ensureCache w s) = Finished ()" by simp
  show ?thesis
    by (simp add: loadFixtures_listed [OF fin]) (simp add: ec)
qed

text \<open>
  Claim C6. Let the merged configuration be the options over the module's defaults.
  When the active environment matches the configured environments (membership in a
  list, equality with a scalar) and \<^verbatim>\<open>loadFixturesOnStartup\<close> is set, \<^verbatim>\<open>init\<close> is the
  load of all fixtures on the configured state, with the startup callback as its
  callback: the same calls to the outside, the same state afterwards, the same
  exception escaping. In every other case, in particular when the environment does not
  match whatever \<^verbatim>\<open>loadFixturesOnStartup\<close> says, \<^verbatim>\<open>init\<close> only configures: it calls
  nothing outside and returns. In a process that has not loaded before, the directory
  is listed during \<^verbatim>\<open>init\<close> if and only if both conditions hold; and when they hold,
  the listing succeeds and every bulk-create succeeds, there is one bulk-create for
  every listed fixture.
\<close>

theorem init_startup_load_iff:
  "(spec_environment_match (environments (merge (defaults s) opts)) (active_environment w a) \<and>
      loadFixturesOnStartup (merge (defaults s) opts) \<longrightarrow>
        post (init w a opts s) =
          post (loadFixtures w None (startupCallback (merge (defaults s) opts))
                 (configure w a opts s)) \<and>
        events (init w a opts s) =
          events (loadFixtures w None (startupCallback (merge (defaults s) opts))
                 (configure w a opts s)) \<and>
        outcome (init w a opts s) =
          (case outcome (loadFixtures w None (startupCallback (merge (defaults s) opts))
                          (configure w a opts s)) of
             Finished e \<Rightarrow> Finished ()
           | Raised x c \<Rightarrow> Raised x None) \<and>
        uncaught (init w a opts s) =
          late (loadFixtures w None (startupCallback (merge (defaults s) opts))
                 (configure w a opts s))) \<and>
   (\<not> (spec_environment_match (environments (merge (defaults s) opts))
          (active_environment w a) \<and>
        loadFixturesOnStartup (merge (defaults s) opts)) \<longrightarrow>
        post (init w a opts s) = configure w a opts s \<and>
        events (init w a opts s) = [] \<and>
        outcome (init w a opts s) = Finished () \<and>
        uncaught (init w a opts s) = None) \<and>
   (cachedFixtures s = None \<longrightarrow>
        (Readdir (fixturePath (configure w a opts s)) \<in> set (events (init w a opts s))) =
        (spec_environment_match (environments (merge (defaults s) opts))
           (active_environment w a) \<and>
         loadFixturesOnStartup (merge (defaults s) opts))) \<and>
   (spec_environment_match (environments (merge (defaults s) opts)) (active_environment w a) \<and>
      loadFixturesOnStartup (merge (defaults s) opts) \<and>
      cachedFixtures s = None \<and>
      createFixtureList w (configure w a opts s) = Inr names \<and>
      (\<forall>n \<in> set names.
         loadable w (post (ensureCache w (configure w a opts s))) n \<and>
         reported w (post (ensureCache w (configure w a opts s))) n = None) \<longrightarrow>
        creates (events (init w a opts s)) =
          map (\<lambda>n. Create n (fixture_data w (post (ensureCache w (configure w a opts s))) n))
            names \<and>
        fixtureNames (post (init w a opts s)) = Some names \<and>
        outcome (init w a opts s) = Finished () \<and>
        uncaught (init w a opts s) = None)"
proof (intro conjI impI)
  let ?m = "spec_environment_match (environments (merge (defaults s) opts))
              (active_environment w a)"
  let ?f = "loadFixturesOnStartup (merge (defaults s) opts)"
  let ?s1 = "configure w a opts s"
  let ?k = "startupCallback (merge (defaults s) opts)"
  {
    assume h: "?m \<and> ?f"
    then have i: "init w a opts s =
           \<lparr>post = post (loadFixtures w None ?k ?s1),
            events = events (loadFixtures w None ?k ?s1),
            outcome = (case outcome (loadFixtures w None ?k ?s1) of
                         Finished e \<Rightarrow> Finished ()
                       | Raised x c \<Rightarrow> Raised x None),
            uncaught = late (loadFixtures w None ?k ?s1)\<rparr>"
      using init_load by blast
    show "post (init w a opts s) = post (loadFixtures w None ?k ?s1)" by (simp add: i)
    show "events (init w a opts s) = events (loadFixtures w None ?k ?s1)" by (simp add: i)
    show "outcome (init w a opts s) =
            (case outcome (loadFixtures w None ?k ?s1) of
               Finished e \<Rightarrow> Finished ()
             | Raised x c \<Rightarrow> Raised x None)"
      by (simp add: i)
    show "uncaught (init w a opts s) = late (loadFixtures w None ?k ?s1)" by (simp add: i)
  }
  {
    assume h: "\<not> (?m \<and> ?f)"
    note i = init_no_load [OF h]
    show "post (init w a opts s) = ?s1" by (simp add: i)
    show "events (init w a opts s) = []" by (simp add: i)
    show "outcome (init w a opts s) = Finished ()" by (simp add: i)
    show "uncaught (init w a opts s) = None" by (simp add: i)
  }
  {
    assume fresh: "cachedFixtures s = None"
    then have fresh1: "cachedFixtures ?s1 = None" by (simp add: configure_fields)
    show "(Readdir (fixturePath ?s1) \<in> set (events (init w a opts s))) = (?m \<and> ?f)"
    proof (cases "?m \<and> ?f")
      case True
      then have "events (init w a opts s) = events (loadFixtures w None ?k ?s1)"
        using init_load by simp
      then show ?thesis
        using True loadFixtures_fresh_lists [OF fresh1, of w None ?k] by simp
    next
      case False
      then show ?thesis using init_no_load [OF False] by simp
    qed
  }
  {
    assume h: "?m \<and> ?f \<and> cachedFixtures s = None \<and>
               createFixtureList w ?s1 = Inr names \<and>
               (\<forall>n \<in> set names. loadable w (post (ensureCache w ?s1)) n \<and>
                                reported w (post (ensureCache w ?s1)) n = None)"
    then have fresh1: "cachedFixtures ?s1 = None" by (simp add: configure_fields)
    have listing: "createFixtureList w ?s1 = Inr names" using h by simp
    note ec = ensureCache_fresh [OF fresh1 listing]
    then have fin: "outcome (ensureCache w ?s1) = Finished ()" by simp
    have names: "fixtureNames (post (ensureCache w ?s1)) = Some names" by (simp add: ec)
    have c: "cachedFixtures (post (ensureCache w ?s1)) \<noteq> None" by (simp add: ec)
    have ld: "\<forall>n \<in> set names. loadable w (post (ensureCache w ?s1)) n" using h by simp
    have ok: "\<forall>n \<in> set names. \<forall>e. reported w (post (ensureCache w ?s1)) n = Some e \<longrightarrow>
                ?k e = None"
      using h by simp
    have none: "failures w (post (ensureCache w ?s1)) names = []"
      using h by (simp add: failures_nil)
    note al = async_load_loadable [OF c ld ok]
    have i: "init w a opts s =
           \<lparr>post = post (loadFixtures w None ?k ?s1),
            events = events (loadFixtures w None ?k ?s1),
            outcome = (case outcome (loadFixtures w None ?k ?s1) of
                         Finished e \<Rightarrow> Finished ()
                       | Raised x c \<Rightarrow> Raised x None),
            uncaught = late (loadFixtures w None ?k ?s1)\<rparr>"
      using h init_load by blast
    have l: "loadFixtures w None ?k ?s1 =
               \<lparr>post = post (async_each (completion w) ?k (loadFixture w) names
                              (post (ensureCache w ?s1))),
                events = events (ensureCache w ?s1) @
                  events (async_each (completion w) ?k (loadFixture w) names
                              (post (ensureCache w ?s1))),
                outcome = outcome (async_each (completion w) ?k (loadFixture w) names
                              (post (ensureCache w ?s1))),
                late = late (async_each (completion w) ?k (loadFixture w) names
                              (post (ensureCache w ?s1)))\<rparr>"
      using loadFixtures_listed [OF fin, of None ?k] by (simp add: names)
    show "creates (events (init w a opts s)) =
            map (\<lambda>n. Create n (fixture_data w (post (ensureCache w ?s1)) n)) names"
      using al(2) by (simp add: i l) (simp add: ec creates_def)
    show "fixtureNames (post (init w a opts s)) = Some names"
      by (simp add: i l async_each_fields start_load_frame names)
    show "outcome (init w a opts s) = Finished ()"
      using al(1) by (simp add: i l)
    show "uncaught (init w a opts s) = None"
      using al(3) by (simp add: i l)
  }
qed

lemmas vocab_defs =
  loadable_def is_cached_def cached_value_def fixture_data_def required_def reported_def
  targets_def

theorem init_startup_load_iff_witness:
  "\<not> spec_environment_match (EnvList [''test'', ''staging'']) (Some ''dev'') \<and>
   loadFixturesOnStartup (merge (defaults module_initial) ex_options_gated) \<and>
   post (init ex_world_dev ex_app ex_options_gated module_initial) =
     configure ex_world_dev ex_app ex_options_gated module_initial \<and>
   events (init ex_world_dev ex_app ex_options_gated module_initial) = [] \<and>
   outcome (init ex_world_dev ex_app ex_options_gated module_initial) = Finished () \<and>
   spec_environment_match (EnvList [''test'', ''staging'']) (Some ''test'') \<and>
   cachedFixtures module_initial = None \<and>
   createFixtureList ex_world (configure ex_world ex_app ex_options_gated module_initial) =
     Inr [''a'', ''b''] \<and>
   Readdir ''/app/fx/'' \<in> set (events (init ex_world ex_app ex_options_gated module_initial)) \<and>
   creates (events (init ex_world ex_app ex_options_gated module_initial)) =
     [Create ''a'' ex_records_a, Create ''b'' ex_records_b] \<and>
   outcome (init ex_world ex_app ex_options_gated module_initial) = Finished () \<and>
   uncaught (init ex_world ex_app ex_options_gated module_initial) = None \<and>
   events (init ex_world ex_app_rejecting_both ex_options_startup_strict module_initial) =
     [Readdir ''/app/fx/'', Require ''/app/fx/'' ''a'', Create ''a'' ex_records_a] \<and>
   outcome (init ex_world ex_app_rejecting_both ex_options_startup_strict module_initial) =
     Raised (Error ''Failed to load fixtures on startup:'') None \<and>
   events (init ex_world_async ex_app_rejecting_both ex_options_startup_strict module_initial) =
     [Readdir ''/app/fx/'', Require ''/app/fx/'' ''a'', Create ''a'' ex_records_a,
      Require ''/app/fx/'' ''b'', Create ''b'' ex_records_b] \<and>
   outcome (init ex_world_async ex_app_rejecting_both ex_options_startup_strict module_initial) =
     Finished () \<and>
   uncaught (init ex_world_async ex_app_rejecting_both ex_options_startup_strict module_initial) =
     Some (Error ''Failed to load fixtures on startup:'')"
proof -
  let ?s1 = "configure ex_world ex_app ex_options_gated module_initial"
  have env: "environments (merge (defaults module_initial) ex_options_gated) =
               EnvList [''test'', ''staging'']"
    and flag: "loadFixturesOnStartup (merge (defaults module_initial) ex_options_gated)"
    and dev: "active_environment ex_world_dev ex_app = Some ''dev''"
    and test: "active_environment ex_world ex_app = Some ''test''"
    and fresh: "cachedFixtures module_initial = None"
    by (simp_all add: merge_def active_environment_def ex_defs)
  have nomatch: "\<not> spec_environment_match (EnvList [''test'', ''staging'']) (Some ''dev'')"
    and match: "spec_environment_match (EnvList [''test'', ''staging'']) (Some ''test'')"
    by simp_all
  have listing: "createFixtureList ex_world ?s1 = Inr [''a'', ''b'']"
    and path: "fixturePath ?s1 = ''/app/fx/''"
    and la: "loadable ex_world (post (ensureCache ex_world ?s1)) ''a''"
    and lb: "loadable ex_world (post (ensureCache ex_world ?s1)) ''b''"
    and ra: "reported ex_world (post (ensureCache ex_world ?s1)) ''a'' = None"
    and rb: "reported ex_world (post (ensureCache ex_world ?s1)) ''b'' = None"
    and da: "fixture_data ex_world (post (ensureCache ex_world ?s1)) ''a'' = ex_records_a"
    and db: "fixture_data ex_world (post (ensureCache ex_world ?s1)) ''b'' = ex_records_b"
    by (simp_all add: run_defs ex_defs vocab_defs)
  note gated = init_startup_load_iff [where w = ex_world_dev and a = ex_app
      and opts = ex_options_gated and s = module_initial and names = "[]"]
  note loaded = init_startup_load_iff [where w = ex_world and a = ex_app
      and opts = ex_options_gated and s = module_initial and names = "[''a'', ''b'']"]
  have g:
    "post (init ex_world_dev ex_app ex_options_gated module_initial) =
       configure ex_world_dev ex_app ex_options_gated module_initial \<and>
     events (init ex_world_dev ex_app ex_options_gated module_initial) = [] \<and>
     outcome (init ex_world_dev ex_app ex_options_gated module_initial) = Finished ()"
    using gated nomatch unfolding env dev by blast
  have ball: "\<forall>n \<in> set [''a'', ''b''].
                 loadable ex_world (post (ensureCache ex_world ?s1)) n \<and>
                 reported ex_world (post (ensureCache ex_world ?s1)) n = None"
    by (simp add: la lb ra rb)
  have rd: "Readdir (fixturePath ?s1) \<in>
              set (events (init ex_world ex_app ex_options_gated module_initial))"
    using loaded match flag fresh unfolding env test by blast
  have all: "creates (events (init ex_world ex_app ex_options_gated module_initial)) =
               map (\<lambda>n. Create n (fixture_data ex_world (post (ensureCache ex_world ?s1)) n))
                 [''a'', ''b''] \<and>
             outcome (init ex_world ex_app ex_options_gated module_initial) = Finished () \<and>
             uncaught (init ex_world ex_app ex_options_gated module_initial) = None"
    using loaded match flag fresh listing ball unfolding env test by blast
  have l:
    "Readdir ''/app/fx/'' \<in> set (events (init ex_world ex_app ex_options_gated module_initial)) \<and>
     creates (events (init ex_world ex_app ex_options_gated module_initial)) =
       [Create ''a'' ex_records_a, Create ''b'' ex_records_b] \<and>
     outcome (init ex_world ex_app ex_options_gated module_initial) = Finished () \<and>
     uncaught (init ex_world ex_app ex_options_gated module_initial) = None"
    using rd all by (simp add: path da db)
  have sync:
    "events (init ex_world ex_app_rejecting_both ex_options_startup_strict module_initial) =
       [Readdir ''/app/fx/'', Require ''/app/fx/'' ''a'', Create ''a'' ex_records_a]"
    "outcome (init ex_world ex_app_rejecting_both ex_options_startup_strict module_initial) =
       Raised (Error ''Failed to load fixtures on startup:'') None"
    by (simp_all add: run_defs ex_defs ex_records_a_def)
  have async:
    "events (init ex_world_async ex_app_rejecting_both ex_options_startup_strict module_initial) =
       [Readdir ''/app/fx/'', Require ''/app/fx/'' ''a'', Create ''a'' ex_records_a,
        Require ''/app/fx/'' ''b'', Create ''b'' ex_records_b]"
    "outcome (init ex_world_async ex_app_rejecting_both ex_options_startup_strict module_initial) =
       Finished ()"
    "uncaught (init ex_world_async ex_app_rejecting_both ex_options_startup_strict module_initial) =
       Some (Error ''Failed to load fixtures on startup:'')"
    by (simp_all add: run_defs ex_defs ex_records_a_def ex_records_b_def)
  show ?thesis
    using nomatch match flag fresh listing g l sync async by simp
qed

text \<open>
  Claim C10. After \<^verbatim>\<open>init\<close> with the options \<open>opts\<close>, the module-level \<^verbatim>\<open>defaults\<close>
  are the merged values and \<^verbatim>\<open>config\<close> is the same object: every option \<open>opts\<close>
  names is now the value in \<^verbatim>\<open>defaults\<close>, and a second \<^verbatim>\<open>init\<close> in the same process
  whose options leave that option out configures the first call's value.
\<close>

theorem init_merges_into_defaults:
  "defaults (post (init w a opts s)) = merge (defaults s) opts \<and>
   config (post (init w a opts s)) = defaults (post (init w a opts s)) \<and>
   (opt_loadFixturesOnStartup opts = Some b \<longrightarrow>
      loadFixturesOnStartup (defaults (post (init w a opts s))) = b \<and>
      (opt_loadFixturesOnStartup opts' = None \<longrightarrow>
         loadFixturesOnStartup (config (post (init w' a' opts' (post (init w a opts s))))) = b)) \<and>
   (opt_errorOnSetupFailure opts = Some c \<longrightarrow>
      errorOnSetupFailure (defaults (post (init w a opts s))) = c \<and>
      (opt_errorOnSetupFailure opts' = None \<longrightarrow>
         errorOnSetupFailure (config (post (init w' a' opts' (post (init w a opts s))))) = c)) \<and>
   (opt_environments opts = Some e \<longrightarrow>
      environments (defaults (post (init w a opts s))) = e \<and>
      (opt_environments opts' = None \<longrightarrow>
         environments (config (post (init w' a' opts' (post (init w a opts s))))) = e)) \<and>
   (opt_fixturesPath opts = Some p \<longrightarrow>
      fixturesPath (defaults (post (init w a opts s))) = p \<and>
      (opt_fixturesPath opts' = None \<longrightarrow>
         fixturesPath (config (post (init w' a' opts' (post (init w a opts s))))) = p))"
  by (simp add: init_config merge_def)

theorem init_merges_into_defaults_witness:
  "opt_fixturesPath ex_options = Some ''/fx/'' \<and>
   opt_fixturesPath ex_options_none = None \<and>
   fixturesPath (defaults (post (init ex_world ex_app ex_options module_initial))) = ''/fx/'' \<and>
   fixturesPath (config (post (init ex_world ex_app ex_options_none
                   (post (init ex_world ex_app ex_options module_initial))))) = ''/fx/'' \<and>
   fixturesPath (defaults module_initial) = ''/server/test-fixtures/''"
proof -
  have o1: "opt_fixturesPath ex_options = Some ''/fx/''"
    and o2: "opt_fixturesPath ex_options_none = None"
    and d: "fixturesPath (defaults module_initial) = ''/server/test-fixtures/''"
    by (simp_all add: ex_defs)
  note th = init_merges_into_defaults [where w = ex_world and a = ex_app and opts = ex_options
      and s = module_initial and p = "''/fx/''" and opts' = ex_options_none
      and w' = ex_world and a' = ex_app and b = True and c = True and e = "EnvList []"]
  from th o1 o2 have
    "fixturesPath (defaults (post (init ex_world ex_app ex_options module_initial))) = ''/fx/'' \<and>
     fixturesPath (config (post (init ex_world ex_app ex_options_none
       (post (init ex_world ex_app ex_options module_initial))))) = ''/fx/''"
    by blast
  then show ?thesis using o1 o2 d by blast
qed

section \<open>Concrete runs of the small application\<close>

lemmas state_defs =
  ex_initialised_def ex_loaded_def ex_partial_def ex_rejecting_def ex_rejecting_strict_def
  ex_rejecting_both_strict_def ex_constructor_initialised_def ex_unlisted_def
  ex_loaded_early_def ex_world_backup_def ex_records_a_def ex_records_b_def

lemma ex_initialised_eq:
  "ex_initialised =
     \<lparr>models = app_models ex_app, fixtureNames = None, fixturePath = ''/app/fx/'',
      cachedFixtures = None,
      config = \<lparr>loadFixturesOnStartup = False, errorOnSetupFailure = False,
                environments = EnvScalar ''test'', fixturesPath = ''/fx/''\<rparr>,
      defaults = \<lparr>loadFixturesOnStartup = False, errorOnSetupFailure = False,
                environments = EnvScalar ''test'', fixturesPath = ''/fx/''\<rparr>\<rparr>"
  by (simp add: ex_initialised_def run_defs ex_defs)

lemma ex_loaded_eq:
  "ex_loaded =
     \<lparr>models = app_models ex_app, fixtureNames = Some [''a'', ''b''], fixturePath = ''/app/fx/'',
      cachedFixtures = Some [''a'' \<mapsto> ex_records_a, ''b'' \<mapsto> ex_records_b],
      config = \<lparr>loadFixturesOnStartup = False, errorOnSetupFailure = False,
                environments = EnvScalar ''test'', fixturesPath = ''/fx/''\<rparr>,
      defaults = \<lparr>loadFixturesOnStartup = False, errorOnSetupFailure = False,
                environments = EnvScalar ''test'', fixturesPath = ''/fx/''\<rparr>\<rparr>"
  by (simp add: ex_loaded_def ex_initialised_eq run_defs ex_defs ex_records_a_def ex_records_b_def)

lemma ex_loaded_early_eq:
  "ex_loaded_early =
     \<lparr>models = app_models ex_app, fixtureNames = Some [''a''], fixturePath = ''/app/fx/'',
      cachedFixtures = Some [''a'' \<mapsto> ex_records_a],
      config = \<lparr>loadFixturesOnStartup = False, errorOnSetupFailure = False,
                environments = EnvScalar ''test'', fixturesPath = ''/fx/''\<rparr>,
      defaults = \<lparr>loadFixturesOnStartup = False, errorOnSetupFailure = False,
                environments = EnvScalar ''test'', fixturesPath = ''/fx/''\<rparr>\<rparr>"
  by (simp add: ex_loaded_early_def ex_initialised_eq run_defs ex_defs ex_records_a_def)

lemma ex_partial_eq:
  "ex_partial =
     \<lparr>models = app_models ex_app_partial, fixtureNames = None, fixturePath = ''/app/fx/'',
      cachedFixtures = None,
      config = \<lparr>loadFixturesOnStartup = False, errorOnSetupFailure = False,
                environments = EnvScalar ''test'', fixturesPath = ''/fx/''\<rparr>,
      defaults = \<lparr>loadFixturesOnStartup = False, errorOnSetupFailure = False,
                environments = EnvScalar ''test'', fixturesPath = ''/fx/''\<rparr>\<rparr>"
  by (simp add: ex_partial_def run_defs ex_defs)

lemma ex_rejecting_eq:
  "ex_rejecting =
     \<lparr>models = app_models ex_app_rejecting, fixtureNames = None, fixturePath = ''/app/fx/'',
      cachedFixtures = None,
      config = \<lparr>loadFixturesOnStartup = False, errorOnSetupFailure = False,
                environments = EnvScalar ''test'', fixturesPath = ''/fx/''\<rparr>,
      defaults = \<lparr>loadFixturesOnStartup = False, errorOnSetupFailure = False,
                environments = EnvScalar ''test'', fixturesPath = ''/fx/''\<rparr>\<rparr>"
  by (simp add: ex_rejecting_def run_defs ex_defs)

lemma ex_rejecting_strict_eq:
  "ex_rejecting_strict =
     \<lparr>models = app_models ex_app_rejecting, fixtureNames = None, fixturePath = ''/app/fx/'',
      cachedFixtures = None,
      config = \<lparr>loadFixturesOnStartup = False, errorOnSetupFailure = True,
                environments = EnvScalar ''test'', fixturesPath = ''/fx/''\<rparr>,
      defaults = \<lparr>loadFixturesOnStartup = False, errorOnSetupFailure = True,
                environments = EnvScalar ''test'', fixturesPath = ''/fx/''\<rparr>\<rparr>"
  by (simp add: ex_rejecting_strict_def run_defs ex_defs)

lemma ex_rejecting_both_strict_eq:
  "ex_rejecting_both_strict =
     \<lparr>models = app_models ex_app_rejecting_both, fixtureNames = None,
      fixturePath = ''/app/fx/'', cachedFixtures = None,
      config = \<lparr>loadFixturesOnStartup = False, errorOnSetupFailure = True,
                environments = EnvScalar ''test'', fixturesPath = ''/fx/''\<rparr>,
      defaults = \<lparr>loadFixturesOnStartup = False, errorOnSetupFailure = True,
                environments = EnvScalar ''test'', fixturesPath = ''/fx/''\<rparr>\<rparr>"
  by (simp add: ex_rejecting_both_strict_def run_defs ex_defs)

lemma ex_constructor_initialised_eq:
  "ex_constructor_initialised =
     \<lparr>models = app_models ex_app_constructor, fixtureNames = None,
      fixturePath = ''/app/fx/'', cachedFixtures = None,
      config = \<lparr>loadFixturesOnStartup = False, errorOnSetupFailure = False,
                environments = EnvScalar ''test'', fixturesPath = ''/fx/''\<rparr>,
      defaults = \<lparr>loadFixturesOnStartup = False, errorOnSetupFailure = False,
                environments = EnvScalar ''test'', fixturesPath = ''/fx/''\<rparr>\<rparr>"
  by (simp add: ex_constructor_initialised_def run_defs ex_defs)

lemma ex_unlisted_eq:
  "ex_unlisted =
     \<lparr>models = app_models ex_app, fixtureNames = None, fixturePath = ''/app/fx/'',
      cachedFixtures = Some Map.empty,
      config = \<lparr>loadFixturesOnStartup = False, errorOnSetupFailure = False,
                environments = EnvScalar ''test'', fixturesPath = ''/fx/''\<rparr>,
      defaults = \<lparr>loadFixturesOnStartup = False, errorOnSetupFailure = False,
                environments = EnvScalar ''test'', fixturesPath = ''/fx/''\<rparr>\<rparr>"
  by (simp add: ex_unlisted_def ex_initialised_eq run_defs ex_defs)

lemmas ex_states = ex_initialised_eq ex_loaded_eq ex_loaded_early_eq ex_partial_eq
  ex_rejecting_eq ex_rejecting_strict_eq ex_rejecting_both_strict_eq
  ex_constructor_initialised_eq ex_unlisted_eq

text \<open>
  Claim C1. A list of names is not honoured as a selection: \<^verbatim>\<open>typeof select\<close> is
  \<^verbatim>\<open>object\<close> for a list, so both operations take the branch for an absent selection.
  With the fixtures \<^verbatim>\<open>a\<close> and \<^verbatim>\<open>b\<close> in the directory, setting up the list \<^verbatim>\<open>[a]\<close>
  also inserts the records of \<^verbatim>\<open>b\<close>, while the string \<^verbatim>\<open>a\<close> inserts those of
  \<^verbatim>\<open>a\<close> alone; tearing down the list \<^verbatim>\<open>[a]\<close> also migrates \<^verbatim>\<open>b\<close>, while the
  string \<^verbatim>\<open>a\<close> migrates \<^verbatim>\<open>a\<close> alone.
\<close>

theorem setupFixtures_list_selection_loads_all:
  "creates (events (setupFixtures ex_world (SelArray [''a'']) ex_initialised)) =
     [Create ''a'' ex_records_a, Create ''b'' ex_records_b] \<and>
   creates (events (setupFixtures ex_world (SelString ''a'') ex_initialised)) =
     [Create ''a'' ex_records_a] \<and>
   events (teardownFixtures ex_app (SelArray [''a'']) ex_loaded) =
     [Automigrate ''db'' (Some ''a''), Automigrate ''db'' (Some ''b''),
      Automigrate ''db'' (Some ''a''), Automigrate ''db'' (Some ''b'')] \<and>
   events (teardownFixtures ex_app (SelString ''a'') ex_loaded) =
     [Automigrate ''db'' (Some ''a''), Automigrate ''db'' (Some ''a'')]"
  by (simp add: ex_states run_defs ex_defs ex_records_a_def ex_records_b_def)

text \<open>In general: a list selection runs exactly as no selection does.\<close>

lemma list_selection_is_no_selection:
  "setupFixtures w (SelArray xs) s = setupFixtures w SelAbsent s \<and>
   teardownFixtures a (SelArray xs) s = teardownFixtures a SelAbsent s"
  by (simp add: setupFixtures_def teardownFixtures_def)

text \<open>
  Claim C2. The guard of \<^verbatim>\<open>migrateDataSource\<close> tests the module-level
  \<^verbatim>\<open>fixtureNames\<close>, not the selection. In a process that has not loaded any fixture
  yet, \<^verbatim>\<open>fixtureNames\<close> is undefined, and a teardown with the explicit selection
  \<^verbatim>\<open>a\<close> migrates the whole data source instead of the model \<^verbatim>\<open>a\<close>.
\<close>

theorem teardownFixtures_selection_before_first_load:
  "fixtureNames ex_initialised = None \<and>
   events (teardownFixtures ex_app (SelString ''a'') ex_initialised) = [Automigrate ''db'' None]"
  by (simp add: ex_states run_defs ex_defs)

text \<open>
  Once \<^verbatim>\<open>fixtureNames\<close> is defined, a string selection is migrated as the claim says:
  on every data source, the selected names and then their lowercase variants. While it
  is undefined, every data source is migrated as a whole, whatever the selection.
\<close>

lemma teardownFixtures_selected_names:
  "fixtureNames s = Some known \<Longrightarrow>
   events (teardownFixtures a (SelString str) s) =
     concat (map (\<lambda>d. map (\<lambda>m. Automigrate (fst d) (Some m))
                        (split_comma str @ map toLowerCase (split_comma str)))
              (datasources a))"
  using teardownFixtures_run [of a "SelString str" s]
  by (simp add: migrations_def targets_def)

lemma teardownFixtures_whole:
  "fixtureNames s = None \<Longrightarrow>
   events (teardownFixtures a sel s) = map (\<lambda>d. Automigrate (fst d) None) (datasources a)"
  using teardownFixtures_run [of a sel s]
  by (simp add: migrations_def)

text \<open>
  Claim C9. The listing keeps the entries that end in \<^verbatim>\<open>.json\<close>, but the name is
  derived by \<^verbatim>\<open>replace('.json', '')\<close>, which removes the first occurrence: for the
  file \<^verbatim>\<open>a.json.bak.json\<close> the fixture name is \<^verbatim>\<open>a.bak.json\<close>, not the file name
  without its final extension, \<^verbatim>\<open>a.json.bak\<close>.
\<close>

theorem createFixtureList_strips_first_occurrence:
  "createFixtureList ex_world_backup ex_initialised = Inr [''a.bak.json'', ''users''] \<and>
   ends_with ''.json'' ''a.json.bak.json'' \<and>
   replace_first ''.json'' [] ''a.json.bak.json'' = ''a.bak.json'' \<and>
   spec_fixture_name ''a.json.bak.json'' = ''a.json.bak''"
  by (simp add: ex_states run_defs ex_defs state_defs spec_fixture_name_def)

text \<open>
  For a file name without a dot before the extension, the derived name is the file name
  without the extension.
\<close>

lemma replace_first_plain_name:
  "CHR ''.'' \<notin> set base \<Longrightarrow> replace_first ''.json'' [] (base @ ''.json'') = base"
  by (induction base) auto

lemma createFixtureList_plain_names:
  assumes "readdirSync w (fixturePath s) = Some (map (\<lambda>b. b @ ''.json'') bases)"
    and "\<forall>b \<in> set bases. CHR ''.'' \<notin> set b"
  shows "createFixtureList w s = Inr bases"
proof -
  have keep: "filter (\<lambda>f. ends_with ''.json'' f) (map (\<lambda>b. b @ ''.json'') bases) =
              map (\<lambda>b. b @ ''.json'') bases"
    by (induction bases) (simp_all add: ends_with_def)
  have strip: "map (\<lambda>f. replace_first ''.json'' [] f) (map (\<lambda>b. b @ ''.json'') bases) = bases"
  proof -
    have "\<forall>b \<in> set bases. replace_first ''.json'' [] (b @ ''.json'') = b"
      using assms(2) by (simp add: replace_first_plain_name)
    then have "map (\<lambda>b. replace_first ''.json'' [] (b @ ''.json'')) bases = bases"
      by (induction bases) simp_all
    then show ?thesis by (simp add: o_def)
  qed
  show ?thesis
    by (simp add: createFixtureList_def assms(1) keep strip del: map_map)
qed

section \<open>Setting fixtures up\<close>

lemma setupCallback_post:
  "setupCallback (post (loadFixtures w fixtures k s)) = setupCallback s"
  by (rule ext) (simp add: setupCallback_def loadFixtures_frame)

lemma setupFixtures_loads:
  "post (setupFixtures w sel s) =
     post (loadFixtures w (if typeof sel \<noteq> ''string'' then None else Some (select_names sel))
             (\<lambda>e. None) s)"
  "events (setupFixtures w sel s) =
     events (loadFixtures w (if typeof sel \<noteq> ''string'' then None else Some (select_names sel))
             (\<lambda>e. None) s)"
  "outcome (setupFixtures w sel s) =
     on_callback (setupCallback s)
       (outcome (loadFixtures w
          (if typeof sel \<noteq> ''string'' then None else Some (select_names sel))
          (\<lambda>e. None) s))"
  by (simp_all add: setupFixtures_def Let_def setupCallback_post)





section \<open>Setup without selection\<close>


section \<open>Load failures\<close>

text \<open>
  Claim C8, as amended. When no model is registered under the fixture name, the load
  raises an exception and never invokes its completion callback; when the fixture's
  records are available the exception is the \<^verbatim>\<open>TypeError\<close> of calling \<^verbatim>\<open>create\<close> on
  \<^verbatim>\<open>undefined\<close>. When the bulk-create reports an error, the completion callback
  receives that very error value, unwrapped.
\<close>

theorem loadFixture_failures:
  "(models s n = None \<longrightarrow> (\<exists>x. outcome (loadFixture w n s) = Raised x None)) \<and>
   (cachedFixtures s \<noteq> None \<and> models s n = None \<and>
      (is_cached s n \<or> require w (fixturePath s @ n) \<noteq> None) \<longrightarrow>
        outcome (loadFixture w n s) = Raised (TypeError ''create'') None) \<and>
   (cachedFixtures s \<noteq> None \<and> models s n = Some m \<and>
      (is_cached s n \<or> require w (fixturePath s @ n) \<noteq> None) \<and>
      m (fixture_data w s n) = Some e \<longrightarrow>
        outcome (loadFixture w n s) = Finished (Some e) \<and>
        creates (events (loadFixture w n s)) = [Create n (fixture_data w s n)])"
  by (auto simp: loadFixture_def addToCache_def is_cached_def cached_value_def
      fixture_data_def required_def cache_lookup_def creates_def Let_def
      split: option.splits)

section \<open>The fixture cache\<close>

lemma reads_of_empty:
  "(reads_of n evs = []) = list_all (\<lambda>e. \<not> is_require_of n e) evs"
  by (simp add: reads_of_def filter_empty_conv list_all_iff)

lemma is_cached_cache:
  "is_cached s n \<Longrightarrow> cachedFixtures s \<noteq> None"
  by (auto simp: is_cached_def cached_value_def split: option.splits)

lemma loadFixtures_keeps_cached:
  assumes "is_cached s n"
  shows "cached_value (post (loadFixtures w fixtures k s)) n = cached_value s n \<and>
         reads_of n (events (loadFixtures w fixtures k s)) = []"
proof -
  have ec: "ensureCache w s = \<lparr>post = s, events = [], outcome = Finished ()\<rparr>"
    using is_cached_cache [OF assms] by (rule ensureCache_ready)
  then have fin: "outcome (ensureCache w s) = Finished ()" by simp
  have t: "truthy (cached_value s n)" using assms by (simp add: is_cached_def)
  show ?thesis
    by (simp add: loadFixtures_listed [OF fin] ec reads_of_empty async_each_fields
        start_load_cached_value [OF t] start_load_no_require [OF t])
qed

lemma setupFixtures_keeps_cached:
  assumes "is_cached s n"
  shows "cached_value (post (setupFixtures w sel s)) n = cached_value s n \<and>
         reads_of n (events (setupFixtures w sel s)) = []"
  using loadFixtures_keeps_cached [OF assms]
  by (simp add: setupFixtures_loads)

lemma migrations_no_require:
  "reads_of n (migrations s names d) = []"
  by (simp add: migrations_def reads_of_def split: option.splits)

lemma teardownFixtures_keeps_cached:
  "cached_value (post (teardownFixtures a sel s)) n = cached_value s n \<and>
   reads_of n (events (teardownFixtures a sel s)) = []"
proof -
  have "reads_of n (concat (map (\<lambda>d. migrations s names (fst d)) dss)) = []" for names dss
    using migrations_no_require [of n s names]
    by (induction dss) (simp_all add: reads_of_def)
  then show ?thesis
    by (simp add: teardownFixtures_run)
qed

lemma configure_cached_value:
  "cached_value (configure w a opts s) n = cached_value s n"
  by (simp add: cached_value_def configure_fields)

lemma init_keeps_cached:
  assumes "is_cached s n"
  shows "cached_value (post (init w a opts s)) n = cached_value s n \<and>
         reads_of n (events (init w a opts s)) = []"
proof -
  have c: "is_cached (configure w a opts s) n"
    using assms by (simp add: is_cached_def configure_cached_value)
  show ?thesis
    using loadFixtures_keeps_cached [OF c, of w None "startupCallback (config (configure w a opts s))"]
    by (simp add: init_def Let_def configure_cached_value reads_of_def)
qed

lemma exec_op_keeps_cached:
  assumes "is_cached s n"
  shows "cached_value (fst (exec_op w p s)) n = cached_value s n \<and>
         reads_of n (snd (exec_op w p s)) = []"
  using init_keeps_cached [OF assms] setupFixtures_keeps_cached [OF assms]
    teardownFixtures_keeps_cached
  by (cases p) (simp_all add: Let_def)

lemma exec_ops_keeps_cached:
  "is_cached s n \<Longrightarrow>
   cached_value (fst (exec_ops ops s)) n = cached_value s n \<and>
   reads_of n (snd (exec_ops ops s)) = []"
proof (induction ops arbitrary: s)
  case Nil
  show ?case by (simp add: reads_of_def)
next
  case (Cons wp ops)
  note step = exec_op_keeps_cached [OF Cons.prems, of "fst wp" "snd wp"]
  then have "is_cached (fst (exec_op (fst wp) (snd wp) s)) n"
    using Cons.prems by (simp add: is_cached_def)
  from Cons.IH [OF this] step show ?case
    by (simp add: Let_def reads_of_def)
qed

lemma loadFixture_first:
  assumes "cachedFixtures s = Some c"
    and "\<not> is_cached s n"
    and "require w (fixturePath s @ n) = Some d"
  shows "post (loadFixture w n s) = s\<lparr>cachedFixtures := Some (c(n \<mapsto> d))\<rparr>"
    and "events (loadFixture w n s) =
           Require (fixturePath s) n # (case models s n of None \<Rightarrow> [] | Some m \<Rightarrow> [Create n d])"
proof -
  have nt: "\<not> truthy (cache_lookup c n)"
    using assms(1,2) by (simp add: is_cached_def cached_value_def)
  have upd: "cache_lookup (c(n \<mapsto> d)) n = d"
    by (simp add: cache_lookup_def)
  have atc: "addToCache w n s =
               \<lparr>post = s\<lparr>cachedFixtures := Some (c(n \<mapsto> d))\<rparr>,
                events = [Require (fixturePath s) n], outcome = Finished ()\<rparr>"
    by (simp add: addToCache_def assms(1,3))
  show "post (loadFixture w n s) = s\<lparr>cachedFixtures := Some (c(n \<mapsto> d))\<rparr>"
    by (cases "models s n") (simp_all add: loadFixture_def assms(1) nt atc Let_def)
  show "events (loadFixture w n s) =
           Require (fixturePath s) n # (case models s n of None \<Rightarrow> [] | Some m \<Rightarrow> [Create n d])"
    by (cases "models s n") (simp_all add: loadFixture_def assms(1) nt atc Let_def upd)
qed

lemma loadFixture_again:
  assumes "cachedFixtures s = Some c"
    and "is_cached s n"
  shows "post (loadFixture w n s) = s"
    and "events (loadFixture w n s) =
           (case models s n of None \<Rightarrow> [] | Some m \<Rightarrow> [Create n (cached_value s n)])"
proof -
  have t: "truthy (cache_lookup c n)"
    using assms by (simp add: is_cached_def cached_value_def)
  have cv: "cached_value s n = cache_lookup c n"
    using assms(1) by (simp add: cached_value_def)
  show "post (loadFixture w n s) = s"
    by (cases "models s n") (simp_all add: loadFixture_def assms(1) t Let_def)
  show "events (loadFixture w n s) =
           (case models s n of None \<Rightarrow> [] | Some m \<Rightarrow> [Create n (cached_value s n)])"
    by (cases "models s n") (simp_all add: loadFixture_def assms(1) t cv Let_def)
qed

text \<open>
  Claim C7. Let \<open>n\<close> be a valid fixture name (its file holds an object or an array)
  that is not cached yet. The first load reads the file once and caches its records; a
  second load, whatever the file system then holds, reads nothing and hands the same
  records to \<^verbatim>\<open>create\<close>; and after any sequence of \<^verbatim>\<open>init\<close>, \<^verbatim>\<open>setupFixtures\<close> and
  \<^verbatim>\<open>teardownFixtures\<close> calls the cache still holds these records and the file of \<open>n\<close>
  was not read again.
\<close>

theorem loadFixture_reads_file_once:
  assumes "cachedFixtures s \<noteq> None"
    and "\<not> is_cached s n"
    and "require w (fixturePath s @ n) = Some d"
    and "is_records d"
  shows "cached_value (post (loadFixture w n s)) n = d \<and>
         cached_value (post (loadFixture w' n (post (loadFixture w n s)))) n = d \<and>
         reads_of n (events (loadFixture w n s)) = [Require (fixturePath s) n] \<and>
         reads_of n (events (loadFixture w' n (post (loadFixture w n s)))) = [] \<and>
         creates (events (loadFixture w n s)) =
           (case models s n of None \<Rightarrow> [] | Some m \<Rightarrow> [Create n d]) \<and>
         creates (events (loadFixture w' n (post (loadFixture w n s)))) =
           creates (events (loadFixture w n s)) \<and>
         cached_value (fst (exec_ops ops (post (loadFixture w n s)))) n = d \<and>
         reads_of n (snd (exec_ops ops (post (loadFixture w n s)))) = []"
proof -
  obtain c where c: "cachedFixtures s = Some c" using assms(1) by auto
  let ?s1 = "s\<lparr>cachedFixtures := Some (c(n \<mapsto> d))\<rparr>"
  have t: "truthy d" using assms(4) by (cases d) simp_all
  have p1: "post (loadFixture w n s) = ?s1"
    and e1: "events (loadFixture w n s) =
               Require (fixturePath s) n # (case models s n of None \<Rightarrow> [] | Some m \<Rightarrow> [Create n d])"
    using loadFixture_first [OF c assms(2,3)] by simp_all
  have c1: "cachedFixtures ?s1 = Some (c(n \<mapsto> d))" by simp
  have cv1: "cached_value ?s1 n = d"
    by (simp add: cached_value_def cache_lookup_def)
  have cached: "is_cached ?s1 n" using cv1 t by (simp add: is_cached_def)
  have p2: "post (loadFixture w' n ?s1) = ?s1"
    and e2: "events (loadFixture w' n ?s1) =
               (case models s n of None \<Rightarrow> [] | Some m \<Rightarrow> [Create n d])"
    using loadFixture_again [OF c1 cached, of w'] by (simp_all add: cv1 cong: option.case_cong)
  have r1: "reads_of n (events (loadFixture w n s)) = [Require (fixturePath s) n]"
    by (cases "models s n") (simp_all add: e1 reads_of_def)
  have r2: "reads_of n (events (loadFixture w' n ?s1)) = []"
    by (cases "models s n") (simp_all add: e2 reads_of_def)
  have k1: "creates (events (loadFixture w n s)) =
              (case models s n of None \<Rightarrow> [] | Some m \<Rightarrow> [Create n d])"
    by (cases "models s n") (simp_all add: e1 creates_def)
  have k2: "creates (events (loadFixture w' n ?s1)) =
              (case models s n of None \<Rightarrow> [] | Some m \<Rightarrow> [Create n d])"
    by (cases "models s n") (simp_all add: e2 creates_def)
  note later = exec_ops_keeps_cached [OF cached, of ops]
  show ?thesis
    unfolding p1 p2 using cv1 r1 [unfolded p1] r2 k1 [unfolded p1] k2 later by simp
qed

section \<open>The properties on the small application\<close>





text \<open>
  Claim C8 as stated fails. Loading the fixture \<^verbatim>\<open>b\<close>, whose file is there, with no
  model registered under \<^verbatim>\<open>b\<close> raises a \<^verbatim>\<open>TypeError\<close> and the completion callback
  is not invoked: no error reaches the error path. A rejected bulk-create hands the
  model's own error value to the callback.
\<close>

theorem loadFixture_raises_without_model:
  "models (post (ensureCache ex_world ex_partial)) ''b'' = None \<and>
   require ex_world (fixturePath (post (ensureCache ex_world ex_partial)) @ ''b'') =
     Some ex_records_b \<and>
   outcome (loadFixture ex_world ''b'' (post (ensureCache ex_world ex_partial))) =
     Raised (TypeError ''create'') None \<and>
   models (post (ensureCache ex_world ex_rejecting)) ''b'' = Some (\<lambda>d. Some ''duplicate key'') \<and>
   outcome (loadFixture ex_world ''b'' (post (ensureCache ex_world ex_rejecting))) =
     Finished (Some ''duplicate key'')"
  by (simp add: ex_states run_defs ex_defs)

text \<open>The amended claim C8 on the small application.\<close>

theorem loadFixture_failures_witness:
  "cachedFixtures (post (ensureCache ex_world ex_partial)) = Some Map.empty \<and>
   models (post (ensureCache ex_world ex_partial)) ''b'' = None \<and>
   require ex_world (fixturePath (post (ensureCache ex_world ex_partial)) @ ''b'') =
     Some ex_records_b \<and>
   outcome (loadFixture ex_world ''b'' (post (ensureCache ex_world ex_partial))) =
     Raised (TypeError ''create'') None \<and>
   cachedFixtures (post (ensureCache ex_world ex_rejecting)) = Some Map.empty \<and>
   models (post (ensureCache ex_world ex_rejecting)) ''b'' = Some (\<lambda>d. Some ''duplicate key'') \<and>
   require ex_world (fixturePath (post (ensureCache ex_world ex_rejecting)) @ ''b'') =
     Some ex_records_b \<and>
   outcome (loadFixture ex_world ''b'' (post (ensureCache ex_world ex_rejecting))) =
     Finished (Some ''duplicate key'') \<and>
   creates (events (loadFixture ex_world ''b'' (post (ensureCache ex_world ex_rejecting)))) =
     [Create ''b'' ex_records_b]"
proof -
  let ?p = "post (ensureCache ex_world ex_partial)"
  let ?r = "post (ensureCache ex_world ex_rejecting)"
  have p1: "cachedFixtures ?p = Some Map.empty"
    and p2: "models ?p ''b'' = None"
    and p3: "require ex_world (fixturePath ?p @ ''b'') = Some ex_records_b"
    by (simp_all add: ex_states run_defs ex_defs)
  have r1: "cachedFixtures ?r = Some Map.empty"
    and r2: "models ?r ''b'' = Some (\<lambda>d. Some ''duplicate key'')"
    and r3: "require ex_world (fixturePath ?r @ ''b'') = Some ex_records_b"
    and r4: "fixture_data ex_world ?r ''b'' = ex_records_b"
    by (simp_all add: ex_states run_defs ex_defs vocab_defs)
  from loadFixture_failures [where s = ?p and n = "''b''" and w = ex_world] p1 p2 p3
  have a: "outcome (loadFixture ex_world ''b'' ?p) = Raised (TypeError ''create'') None"
    by simp
  from loadFixture_failures [where s = ?r and n = "''b''" and w = ex_world
      and m = "\<lambda>d. Some ''duplicate key''" and e = "''duplicate key''"] r1 r2 r3
  have b: "outcome (loadFixture ex_world ''b'' ?r) = Finished (Some ''duplicate key'') \<and>
           creates (events (loadFixture ex_world ''b'' ?r)) =
             [Create ''b'' (fixture_data ex_world ?r ''b'')]"
    by simp
  show ?thesis
    using p1 p2 p3 r1 r2 r3 a b by (simp add: r4)
qed

text \<open>
  Claim C7 on the small application: the fixture \<^verbatim>\<open>a\<close> is loaded once, then again
  after its file has gone, and then the process runs four more operations.
\<close>

theorem loadFixture_reads_file_once_witness:
  "cachedFixtures (post (ensureCache ex_world ex_initialised)) = Some Map.empty \<and>
   \<not> is_cached (post (ensureCache ex_world ex_initialised)) ''a'' \<and>
   require ex_world (fixturePath (post (ensureCache ex_world ex_initialised)) @ ''a'') =
     Some ex_records_a \<and>
   is_records ex_records_a \<and>
   require ex_world_backup (fixturePath (post (ensureCache ex_world ex_initialised)) @ ''a'') =
     None \<and>
   reads_of ''a'' (events (loadFixture ex_world ''a'' (post (ensureCache ex_world ex_initialised)))) =
     [Require ''/app/fx/'' ''a''] \<and>
   creates (events (loadFixture ex_world ''a'' (post (ensureCache ex_world ex_initialised)))) =
     [Create ''a'' ex_records_a] \<and>
   reads_of ''a'' (events (loadFixture ex_world_backup ''a''
     (post (loadFixture ex_world ''a'' (post (ensureCache ex_world ex_initialised)))))) = [] \<and>
   creates (events (loadFixture ex_world_backup ''a''
     (post (loadFixture ex_world ''a'' (post (ensureCache ex_world ex_initialised)))))) =
     [Create ''a'' ex_records_a] \<and>
   cached_value (fst (exec_ops
       [(ex_world_backup, OpSetup SelAbsent),
        (ex_world, OpTeardown ex_app (SelString ''a'')),
        (ex_world_backup, OpInit ex_app ex_options),
        (ex_world, OpSetup (SelString ''a,b''))]
       (post (loadFixture ex_world ''a'' (post (ensureCache ex_world ex_initialised)))))) ''a'' =
     ex_records_a \<and>
   reads_of ''a'' (snd (exec_ops
       [(ex_world_backup, OpSetup SelAbsent),
        (ex_world, OpTeardown ex_app (SelString ''a'')),
        (ex_world_backup, OpInit ex_app ex_options),
        (ex_world, OpSetup (SelString ''a,b''))]
       (post (loadFixture ex_world ''a'' (post (ensureCache ex_world ex_initialised)))))) = []"
proof -
  let ?s = "post (ensureCache ex_world ex_initialised)"
  have h0: "cachedFixtures ?s = Some Map.empty"
    and h2: "\<not> is_cached ?s ''a''"
    and h3: "require ex_world (fixturePath ?s @ ''a'') = Some ex_records_a"
    and h4: "is_records ex_records_a"
    and h5: "require ex_world_backup (fixturePath ?s @ ''a'') = None"
    and h6: "fixturePath ?s = ''/app/fx/''"
    and h7: "models ?s ''a'' = Some (\<lambda>d. None)"
    by (simp_all add: ex_states run_defs ex_defs vocab_defs state_defs)
  have h1: "cachedFixtures ?s \<noteq> None" using h0 by simp
  note th = loadFixture_reads_file_once [OF h1 h2 h3 h4, where w' = ex_world_backup
      and ops = "[(ex_world_backup, OpSetup SelAbsent),
        (ex_world, OpTeardown ex_app (SelString ''a'')),
        (ex_world_backup, OpInit ex_app ex_options),
        (ex_world, OpSetup (SelString ''a,b''))]"]
  show ?thesis
    using th h0 h2 h3 h4 h5 by (simp add: h6 h7)
qed

end
